theory Spec2Isabelle
  imports Main "HOL-Library.AList"
begin

section \<open>Documents, principals and the outside world\<close>

text \<open>
  A Firestore document is a JavaScript object literal. Its fields are kept as an
  association list in the order the source writes them; \<open>Timestamp\<close> is what the
  server stores for \<open>serverTimestamp()\<close>.
\<close>

datatype json = Null | Str string | Arr "json list" | Obj "(string \<times> json) list" | Timestamp nat

type_synonym fields = "(string \<times> json) list"

text \<open>\<open>doc(db, collection, id)\<close>: a document reference is a collection name and a key.\<close>

type_synonym docref = "string \<times> string"

text \<open>The part of Firebase's \<open>User\<close> the program reads: \<open>email\<close> and \<open>photoURL\<close> may be null.\<close>

record firebase_user =
  uid :: string
  email :: "string option"
  photoURL :: "string option"

text \<open>Every call the program makes to the Document Store or the Identity Provider.\<close>

datatype call =
    GetDoc docref
  | SetDoc docref fields
  | CreateUser string string
  | SignIn string string

text \<open>
  The world the client talks to: the store's documents, the principals of the Identity
  Provider, and the calls issued so far, oldest first.
\<close>

record world =
  db :: "docref \<rightharpoonup> fields"
  principals :: "firebase_user list"
  trace :: "call list"

text \<open>
  What the program does not decide: whether a store call fails (and with which
  \<open>error.message\<close>), what the Identity Provider answers to a sign-up and to a sign-in,
  the server's clock, and the email check of the validation library.
\<close>

record env =
  fault :: "call \<Rightarrow> string option"
  signup :: "string + firebase_user"
  signin :: "string + firebase_user"
  now :: nat
  email_ok :: "string \<Rightarrow> bool"

text \<open>What the user interface is told to do.\<close>

datatype variant = Default | Destructive

datatype ui =
    SetError string string
  | Toast variant string string
  | RouterPush string
  | RouterReplace string

section \<open>Store and Identity Provider calls\<close>

text \<open>
  An awaited call returns the world after the call and either the thrown error's message
  (\<open>Inl\<close>) or the value. \<open>await\<close> is the sequencing of a \<open>try\<close> block: the first
  rejected promise leaves the block.
\<close>

definition await :: "world \<times> (string + 'a) \<Rightarrow> (world \<Rightarrow> 'a \<Rightarrow> world \<times> (string + 'b)) \<Rightarrow> world \<times> (string + 'b)" where
  "await m k = (case m of (w, Inl msg) \<Rightarrow> (w, Inl msg) | (w, Inr x) \<Rightarrow> k w x)"

definition getDoc :: "env \<Rightarrow> docref \<Rightarrow> world \<Rightarrow> world \<times> (string + fields option)" where
  "getDoc en r w =
     (w\<lparr>trace := trace w @ [GetDoc r]\<rparr>,
      case fault en (GetDoc r) of Some msg \<Rightarrow> Inl msg | None \<Rightarrow> Inr (db w r))"

text \<open>\<open>setDoc\<close> without merge options: the document at the reference is replaced.\<close>

definition setDoc :: "env \<Rightarrow> docref \<Rightarrow> fields \<Rightarrow> world \<Rightarrow> world \<times> (string + unit)" where
  "setDoc en r d w =
     (case fault en (SetDoc r d) of
        Some msg \<Rightarrow> (w\<lparr>trace := trace w @ [SetDoc r d]\<rparr>, Inl msg)
      | None \<Rightarrow> (w\<lparr>db := (db w)(r \<mapsto> d), trace := trace w @ [SetDoc r d]\<rparr>, Inr ()))"

text \<open>
  \<open>doc(db, collection, id)\<close> checks the path before any request is made. The SDK cuts
  the identifier at every \<open>/\<close> and drops the empty pieces; it throws when the
  identifier holds \<open>//\<close>, and when the collection name and the remaining pieces are an
  odd number of segments, which is when the pieces are an even number: \<open>a/b\<close> is
  refused, \<open>a\<close> and \<open>a/b/c\<close> are references. The reference is kept as the collection
  and the identifier as written. (An identifier that begins or ends with \<open>/\<close> names
  the document of the identifier without that \<open>/\<close>; the model keeps the two apart.)
\<close>

fun split_slash :: "string \<Rightarrow> string list" where
  "split_slash [] = [[]]"
| "split_slash (c # cs) =
     (if c = CHR ''/'' then [] # split_slash cs
      else (case split_slash cs of [] \<Rightarrow> [[c]] | s # ss \<Rightarrow> (c # s) # ss))"

fun double_slash :: "string \<Rightarrow> bool" where
  "double_slash (a # b # cs) = ((a = CHR ''/'' \<and> b = CHR ''/'') \<or> double_slash (b # cs))"
| "double_slash _ = False"

definition doc_segments :: "string \<Rightarrow> string list" where
  "doc_segments i = filter (\<lambda>s. s \<noteq> []) (split_slash i)"

definition doc :: "string \<Rightarrow> string \<Rightarrow> world \<Rightarrow> world \<times> (string + docref)" where
  "doc c i w =
     (w, if double_slash i \<or> even (length (doc_segments i)) then Inl ''invalid-argument''
         else Inr (c, i))"

definition createUserWithEmailAndPassword :: "env \<Rightarrow> string \<Rightarrow> string \<Rightarrow> world \<Rightarrow> world \<times> (string + firebase_user)" where
  "createUserWithEmailAndPassword en e p w =
     (case signup en of
        Inl msg \<Rightarrow> (w\<lparr>trace := trace w @ [CreateUser e p]\<rparr>, Inl msg)
      | Inr usr \<Rightarrow> (w\<lparr>principals := principals w @ [usr], trace := trace w @ [CreateUser e p]\<rparr>, Inr usr))"

definition signInWithEmailAndPassword :: "env \<Rightarrow> string \<Rightarrow> string \<Rightarrow> world \<Rightarrow> world \<times> (string + firebase_user)" where
  "signInWithEmailAndPassword en e p w =
     (w\<lparr>trace := trace w @ [SignIn e p]\<rparr>, signin en)"

section \<open>Username normalization and validation schemas\<close>

text \<open>
  \<open>String.prototype.toLowerCase\<close> on the characters a username can hold: the ASCII
  capitals move to their small letters, every other ASCII character stays. (Characters
  beyond ASCII never reach it: the schemas below reject them first.)
\<close>

definition toLowerCase_char :: "char \<Rightarrow> char" where
  "toLowerCase_char c =
     (let n = (of_char c :: nat) in if 65 \<le> n \<and> n \<le> 90 then char_of (n + 32) else c)"

definition toLowerCase :: "string \<Rightarrow> string" where
  "toLowerCase s = map toLowerCase_char s"

text \<open>The character class \<open>[a-zA-Z0-9_]\<close>.\<close>

definition word_char :: "char \<Rightarrow> bool" where
  "word_char c =
     (let n = (of_char c :: nat) in
        (97 \<le> n \<and> n \<le> 122) \<or> (65 \<le> n \<and> n \<le> 90) \<or> (48 \<le> n \<and> n \<le> 57) \<or> n = 95)"

text \<open>\<open>/^[a-zA-Z0-9_]+$/\<close>: one or more characters, all of the class.\<close>

definition username_regex :: "string \<Rightarrow> bool" where
  "username_regex s = (s \<noteq> [] \<and> list_all word_char s)"

text \<open>
  The \<open>username\<close> rule of \<open>registerSchema\<close> and of \<open>profileSchema\<close> (the two files
  spell it identically): the messages of the checks that fail.
\<close>

definition username_issues :: "string \<Rightarrow> string list" where
  "username_issues s =
     (if length s < 3 then [''Username must be at least 3 characters.''] else []) @
     (if length s > 20 then [''Username must be no more than 20 characters.''] else []) @
     (if username_regex s then [] else [''Username can only contain letters, numbers, and underscores.''])"

record form_values =
  username :: string
  email_value :: string
  password :: string

definition loginSchema :: "env \<Rightarrow> form_values \<Rightarrow> (string \<times> string) list" where
  "loginSchema en v =
     (if email_ok en (email_value v) then [] else [(''email'', ''Please enter a valid email.'')]) @
     (if length (password v) < 1 then [(''password'', ''Password is required.'')] else [])"

definition registerSchema :: "env \<Rightarrow> form_values \<Rightarrow> (string \<times> string) list" where
  "registerSchema en v =
     map (Pair ''username'') (username_issues (username v)) @
     (if email_ok en (email_value v) then [] else [(''email'', ''Please enter a valid email.'')]) @
     (if length (password v) < 6 then [(''password'', ''Password must be at least 6 characters.'')] else [])"

definition profileSchema :: "string \<Rightarrow> (string \<times> string) list" where
  "profileSchema name = map (Pair ''username'') (username_issues name)"

text \<open>
  Two usernames differ only in letter case when they have the same length and, position
  by position, hold the same character or the capital and the small form of one ASCII
  letter (which lie 32 apart).
\<close>

definition ascii_letter :: "char \<Rightarrow> bool" where
  "ascii_letter c = (let n = (of_char c :: nat) in (65 \<le> n \<and> n \<le> 90) \<or> (97 \<le> n \<and> n \<le> 122))"

definition same_letter :: "char \<Rightarrow> char \<Rightarrow> bool" where
  "same_letter c d =
     (c = d \<or>
      (ascii_letter c \<and> ascii_letter d \<and>
       ((of_char c :: nat) + 32 = of_char d \<or> (of_char d :: nat) + 32 = of_char c)))"

definition differ_only_in_case :: "string \<Rightarrow> string \<Rightarrow> bool" where
  "differ_only_in_case s t = list_all2 same_letter s t"

section \<open>Username Registry\<close>

text \<open>\<open>checkUsernameUnique\<close> of auth-form.tsx: the spec's \<open>isAvailable\<close>.\<close>

definition checkUsernameUnique :: "env \<Rightarrow> string \<Rightarrow> world \<Rightarrow> world \<times> (string + bool)" where
  "checkUsernameUnique en name w =
     await (getDoc en (''usernames'', toLowerCase name) w)
       (\<lambda>w1 docSnap. (w1, Inr (docSnap = None)))"

text \<open>\<open>checkUsernameUnique\<close> of finish-profile/page.tsx, a second copy of the same text.\<close>

definition FinishProfile_checkUsernameUnique :: "env \<Rightarrow> string \<Rightarrow> world \<Rightarrow> world \<times> (string + bool)" where
  "FinishProfile_checkUsernameUnique en name w =
     await (getDoc en (''usernames'', toLowerCase name) w)
       (\<lambda>w1 docSnap. (w1, Inr (docSnap = None)))"

text \<open>
  The registry write both workflows contain,
  \<open>setDoc(doc(db, "usernames", username.toLowerCase()), { uid })\<close>: the spec's \<open>claim\<close>.
\<close>

definition claim :: "env \<Rightarrow> string \<Rightarrow> string \<Rightarrow> world \<Rightarrow> world \<times> (string + unit)" where
  "claim en name a w = setDoc en (''usernames'', toLowerCase name) [(''uid'', Str a)] w"

section \<open>Profile Initializer\<close>

text \<open>The portfolio document of the direct registration (auth-form.tsx).\<close>

definition AuthForm_portfolio :: fields where
  "AuthForm_portfolio =
     [(''fullName'', Str ''Your Name''),
      (''title'', Str ''Your Title''),
      (''bio'', Str ''A short bio about yourself.''),
      (''profilePictureUrl'', Str ''''),
      (''skills'', Arr [Str ''React'', Str ''Next.js'', Str ''Firebase'']),
      (''projects'', Arr []),
      (''theme'', Str ''default'')]"

definition AuthForm_seedDefault :: "env \<Rightarrow> string \<Rightarrow> world \<Rightarrow> world \<times> (string + unit)" where
  "AuthForm_seedDefault en a w = setDoc en (''portfolios'', a) AuthForm_portfolio w"

text \<open>
  The portfolio document of the federated completion (finish-profile/page.tsx);
  \<open>user?.photoURL || ""\<close> reads the avatar of the session's principal.
\<close>

definition avatar_or_empty :: "firebase_user option \<Rightarrow> string" where
  "avatar_or_empty su = (case su of None \<Rightarrow> '''' | Some u \<Rightarrow> (case photoURL u of None \<Rightarrow> '''' | Some p \<Rightarrow> p))"

definition FinishProfile_portfolio :: "firebase_user option \<Rightarrow> fields" where
  "FinishProfile_portfolio su =
     [(''fullName'', Str ''Your Name''),
      (''title'', Str ''Your Title''),
      (''bio'', Str ''A short bio about yourself.''),
      (''profilePictureUrl'', Str (avatar_or_empty su)),
      (''website'', Str ''''),
      (''skills'', Arr [Obj [(''name'', Str ''React'')], Obj [(''name'', Str ''Next.js'')], Obj [(''name'', Str ''Firebase'')]]),
      (''projects'', Arr []),
      (''workExperiences'', Arr []),
      (''organizationExperiences'', Arr []),
      (''educations'', Arr []),
      (''certifications'', Arr []),
      (''courses'', Arr []),
      (''testimonials'', Arr []),
      (''socialMedia'', Arr []),
      (''theme'', Str ''default'')]"

definition FinishProfile_seedDefault :: "env \<Rightarrow> firebase_user option \<Rightarrow> string \<Rightarrow> world \<Rightarrow> world \<times> (string + unit)" where
  "FinishProfile_seedDefault en su a w = setDoc en (''portfolios'', a) (FinishProfile_portfolio su) w"

text \<open>
  The name of a skill entry as the portfolio pages print it: the entry itself when it is
  a string (\<open>{skill}\<close>), its \<open>name\<close> field when it is an object (\<open>{skill.name}\<close>).
\<close>

definition skill_name :: "json \<Rightarrow> string option" where
  "skill_name x =
     (case x of
        Str s \<Rightarrow> Some s
      | Obj [(k, Str s)] \<Rightarrow> if k = ''name'' then Some s else None
      | _ \<Rightarrow> None)"

section \<open>Direct registration (auth-form.tsx)\<close>

datatype mode = Login | Register

text \<open>\<open>email: user.email\<close>, which may be null.\<close>

definition json_of_nullable :: "string option \<Rightarrow> json" where
  "json_of_nullable x = (case x of None \<Rightarrow> Null | Some s \<Rightarrow> Str s)"

text \<open>The body of the \<open>try\<close> block of \<open>onSubmit\<close>.\<close>

definition AuthForm_try :: "env \<Rightarrow> mode \<Rightarrow> form_values \<Rightarrow> world \<Rightarrow> world \<times> (string + ui list)" where
  "AuthForm_try en m v w =
     (case m of
        Register \<Rightarrow>
          await (checkUsernameUnique en (username v) w) (\<lambda>w1 isUnique.
            if \<not> isUnique then (w1, Inr [SetError ''username'' ''This username is already taken.''])
            else
              await (createUserWithEmailAndPassword en (email_value v) (password v) w1) (\<lambda>w2 usr.
              await (setDoc en (''users'', uid usr)
                       [(''username'', Str (toLowerCase (username v))),
                        (''email'', json_of_nullable (email usr)),
                        (''createdAt'', Timestamp (now en))] w2) (\<lambda>w3 _.
              await (claim en (username v) (uid usr) w3) (\<lambda>w4 _.
              await (AuthForm_seedDefault en (uid usr) w4) (\<lambda>w5 _.
                (w5, Inr [RouterPush ''/dashboard'']))))))
      | Login \<Rightarrow>
          await (signInWithEmailAndPassword en (email_value v) (password v) w) (\<lambda>w1 _.
            (w1, Inr [RouterPush ''/dashboard''])))"

text \<open>\<open>error.message || "An unknown error occurred."\<close>\<close>

definition message_or_unknown :: "string \<Rightarrow> string" where
  "message_or_unknown msg = (if msg = [] then ''An unknown error occurred.'' else msg)"

definition AuthForm_onSubmit :: "env \<Rightarrow> mode \<Rightarrow> form_values \<Rightarrow> world \<Rightarrow> world \<times> ui list" where
  "AuthForm_onSubmit en m v w =
     (case AuthForm_try en m v w of
        (w', Inr acts) \<Rightarrow> (w', acts)
      | (w', Inl msg) \<Rightarrow> (w', [Toast Destructive ''Authentication Error'' (message_or_unknown msg)]))"

text \<open>
  \<open>form.handleSubmit(onSubmit)\<close> with the resolver of the mode's schema: \<open>onSubmit\<close>
  runs only when the schema reports no issue; otherwise every field with an issue shows
  its first issue (\<open>AList.clearjunk\<close> keeps the first entry of each field).
\<close>

definition AuthForm_handleSubmit :: "env \<Rightarrow> mode \<Rightarrow> form_values \<Rightarrow> world \<Rightarrow> world \<times> ui list" where
  "AuthForm_handleSubmit en m v w =
     (let issues = (case m of Login \<Rightarrow> loginSchema en v | Register \<Rightarrow> registerSchema en v) in
      if issues = [] then AuthForm_onSubmit en m v w
      else (w, map (\<lambda>(f, msg). SetError f msg) (AList.clearjunk issues)))"

section \<open>Federated completion (finish-profile/page.tsx)\<close>

text \<open>\<open>searchParams.get('uid')\<close> and \<open>searchParams.get('email')\<close>: null when absent.\<close>

record search_params =
  q_uid :: "string option"
  q_email :: "string option"

text \<open>JavaScript's \<open>!x\<close> on a string or null: null and the empty string are falsy.\<close>

definition falsy :: "string option \<Rightarrow> bool" where
  "falsy x = (case x of None \<Rightarrow> True | Some s \<Rightarrow> s = [])"

text \<open>
  The body of the \<open>try\<close> block of \<open>onSubmit\<close>. The account identifier comes from the
  URL, so \<open>doc(db, "users", uid)\<close> and \<open>doc(db, "portfolios", uid)\<close> can throw; the
  username passed the schema and the registry reference is always accepted.
\<close>

definition FinishProfile_try :: "env \<Rightarrow> firebase_user option \<Rightarrow> string \<Rightarrow> string \<Rightarrow> string \<Rightarrow> world \<Rightarrow> world \<times> (string + ui list)" where
  "FinishProfile_try en su i e name w =
     await (FinishProfile_checkUsernameUnique en name w) (\<lambda>w1 isUnique.
       if \<not> isUnique then (w1, Inr [SetError ''username'' ''This username is already taken.''])
       else
         await (doc ''users'' i w1) (\<lambda>w1 userRef.
         await (setDoc en userRef
                  [(''username'', Str (toLowerCase name)),
                   (''email'', Str e),
                   (''createdAt'', Timestamp (now en))] w1) (\<lambda>w2 _.
         await (claim en name i w2) (\<lambda>w3 _.
         await (doc ''portfolios'' i w3) (\<lambda>w3 _.
         await (FinishProfile_seedDefault en su i w3) (\<lambda>w4 _.
           (w4, Inr [Toast Default ''Profile complete!'' ''Welcome to PortfolioHub.'',
                     RouterPush ''/dashboard''])))))))"

definition FinishProfile_onSubmit :: "env \<Rightarrow> firebase_user option \<Rightarrow> search_params \<Rightarrow> string \<Rightarrow> world \<Rightarrow> world \<times> ui list" where
  "FinishProfile_onSubmit en su q name w =
     (if falsy (q_uid q) \<or> falsy (q_email q)
      then (w, [Toast Destructive ''Error'' ''Missing user information.''])
      else
        (case FinishProfile_try en su (the (q_uid q)) (the (q_email q)) name w of
           (w', Inr acts) \<Rightarrow> (w', acts)
         | (w', Inl msg) \<Rightarrow> (w', [Toast Destructive ''Error'' ''Failed to save profile. Please try again.''])))"

section \<open>Session restore and routing (auth-context.tsx, dashboard/page.tsx)\<close>

record auth_context =
  user :: "firebase_user option"
  userData :: "fields option"
  loading :: bool

text \<open>
  \<open>{ uid: user.uid, ...userDoc.data() }\<close>: the document's fields laid over the \<open>uid\<close>
  field, a field of the same name taking its place.
\<close>

definition spread_over_uid :: "string \<Rightarrow> fields \<Rightarrow> fields" where
  "spread_over_uid i d = fold (\<lambda>(k, x). AList.update k x) d [(''uid'', Str i)]"

text \<open>
  The callback \<open>AuthProvider\<close> gives to \<open>onAuthStateChanged\<close>. It has no \<open>try\<close>: when
  the read is rejected the callback stops there and \<open>loading\<close> stays true.
\<close>

definition onAuthStateChanged :: "env \<Rightarrow> firebase_user option \<Rightarrow> world \<times> auth_context \<Rightarrow> world \<times> auth_context" where
  "onAuthStateChanged en su s =
     (case s of (w, c0) \<Rightarrow>
        let c1 = c0\<lparr>loading := True\<rparr> in
        (case su of
           Some u \<Rightarrow>
             let c2 = c1\<lparr>user := Some u\<rparr> in
             (case getDoc en (''users'', uid u) w of
                (w1, Inl msg) \<Rightarrow> (w1, c2)
              | (w1, Inr None) \<Rightarrow> (w1, c2\<lparr>userData := None, loading := False\<rparr>)
              | (w1, Inr (Some d)) \<Rightarrow> (w1, c2\<lparr>userData := Some (spread_over_uid (uid u) d), loading := False\<rparr>))
         | None \<Rightarrow> (w, c1\<lparr>user := None, userData := None, loading := False\<rparr>)))"

text \<open>What \<open>DashboardPage\<close> does with the context: wait, leave for another route, or greet.\<close>

datatype view = Loader | Replace string | Welcome fields

text \<open>A template literal prints null as the text \<open>null\<close>.\<close>

definition template_of_nullable :: "string option \<Rightarrow> string" where
  "template_of_nullable x = (case x of None \<Rightarrow> ''null'' | Some s \<Rightarrow> s)"

definition finish_profile_url :: "firebase_user \<Rightarrow> string" where
  "finish_profile_url u = ''/finish-profile?uid='' @ uid u @ ''&email='' @ template_of_nullable (email u)"

definition DashboardPage :: "auth_context \<Rightarrow> view" where
  "DashboardPage c =
     (if loading c then Loader
      else case user c of
        None \<Rightarrow> Replace ''/login''
      | Some u \<Rightarrow>
          (case userData c of
             None \<Rightarrow> Replace (finish_profile_url u)
           | Some d \<Rightarrow> Welcome d))"

subsection \<open>The completion form, which reads the session\<close>

text \<open>
  \<open>FinishProfileForm\<close> shows the form only once the session is loaded and has a
  principal (\<open>if (authLoading || !user) return <Loader2 />\<close>); then
  \<open>form.handleSubmit(onSubmit)\<close> runs \<open>onSubmit\<close> when \<open>profileSchema\<close> reports no
  issue, and otherwise shows the first issue of the username field.
\<close>

definition FinishProfile_handleSubmit :: "env \<Rightarrow> auth_context \<Rightarrow> search_params \<Rightarrow> string \<Rightarrow> world \<Rightarrow> world \<times> ui list" where
  "FinishProfile_handleSubmit en c q name w =
     (if loading c \<or> user c = None then (w, [])
      else
        let issues = profileSchema name in
        if issues = [] then FinishProfile_onSubmit en (user c) q name w
        else (w, map (\<lambda>(f, msg). SetError f msg) (AList.clearjunk issues)))"

section \<open>Concrete inputs\<close>

text \<open>An environment in which no store call fails and the Identity Provider accepts the sign-up.\<close>

definition acct1 :: firebase_user where
  "acct1 = \<lparr>uid = ''acct-1'', email = Some ''u@example.com'', photoURL = None\<rparr>"

definition acct2 :: firebase_user where
  "acct2 = \<lparr>uid = ''acct-2'', email = Some ''g@example.com'', photoURL = Some ''https://example.com/a.png''\<rparr>"

definition quiet_env :: env where
  "quiet_env = \<lparr>fault = (\<lambda>_. None), signup = Inr acct1, signin = Inr acct1, now = 7,
                 email_ok = (\<lambda>s. CHR ''@'' \<in> set s)\<rparr>"

definition empty_world :: world where
  "empty_world = \<lparr>db = Map.empty, principals = [], trace = []\<rparr>"

definition alice_upper :: form_values where
  "alice_upper = \<lparr>username = ''Alice'', email_value = ''u@example.com'', password = ''secret1''\<rparr>"

definition alice_lower :: form_values where
  "alice_lower = \<lparr>username = ''alice'', email_value = ''b@example.com'', password = ''secret2''\<rparr>"

definition short_user :: form_values where
  "short_user = \<lparr>username = ''ab'', email_value = ''u@example.com'', password = ''secret1''\<rparr>"

definition taken_world :: world where
  "taken_world = \<lparr>db = [(''usernames'', ''alice'') \<mapsto> [(''uid'', Str ''acct-0'')]], principals = [], trace = []\<rparr>"

definition google_session :: auth_context where
  "google_session = \<lparr>user = Some acct2, userData = None, loading = False\<rparr>"

definition google_query :: search_params where
  "google_query = \<lparr>q_uid = Some ''acct-2'', q_email = Some ''g@example.com''\<rparr>"

text \<open>A completion URL that names another account than the session's.\<close>

definition forged_query :: search_params where
  "forged_query = \<lparr>q_uid = Some ''acct-9'', q_email = Some ''victim@example.com''\<rparr>"

definition new_user :: form_values where
  "new_user = \<lparr>username = ''new_user_1'', email_value = ''u@example.com'', password = ''secret1''\<rparr>"

text \<open>The principal \<open>acct1\<close> arriving at the completion form.\<close>

definition acct1_session :: auth_context where
  "acct1_session = \<lparr>user = Some acct1, userData = None, loading = False\<rparr>"

definition acct1_query :: search_params where
  "acct1_query = \<lparr>q_uid = Some ''acct-1'', q_email = Some ''u@example.com''\<rparr>"

section \<open>Frame of a run\<close>

text \<open>
  \<open>grows S w w'\<close>: from \<open>w\<close> to \<open>w'\<close> the store changed at most at the references in
  \<open>S\<close>, lost no document, and the trace was only extended.
\<close>

definition grows :: "docref set \<Rightarrow> world \<Rightarrow> world \<Rightarrow> bool" where
  "grows S w w' =
     ((\<forall>r. r \<notin> S \<longrightarrow> db w' r = db w r) \<and>
      (\<forall>r. db w r \<noteq> None \<longrightarrow> db w' r \<noteq> None) \<and>
      (\<exists>rest. trace w' = trace w @ rest))"

section \<open>Evaluation facts\<close>

lemma toLowerCase_Alice: "toLowerCase ''Alice'' = ''alice''"
  by code_simp

lemma toLowerCase_alice: "toLowerCase ''alice'' = ''alice''"
  by code_simp

lemma toLowerCase_new_user_1: "toLowerCase ''new_user_1'' = ''new_user_1''"
  by code_simp

lemmas store_defs = await_def getDoc_def setDoc_def claim_def checkUsernameUnique_def
  FinishProfile_checkUsernameUnique_def

section \<open>Facts about the calls and the workflows\<close>

lemmas flow_defs = AuthForm_handleSubmit_def AuthForm_onSubmit_def AuthForm_try_def
  FinishProfile_handleSubmit_def FinishProfile_onSubmit_def FinishProfile_try_def
  AuthForm_seedDefault_def FinishProfile_seedDefault_def createUserWithEmailAndPassword_def
  signInWithEmailAndPassword_def

lemma username_issues_bad:
  assumes "length name < 3 \<or> 20 < length name \<or> (\<exists>c\<in>set name. \<not> word_char c)"
  shows "username_issues name \<noteq> []"
  using assms by (auto simp: username_issues_def username_regex_def list_all_iff)

subsection \<open>Each call only adds\<close>

lemma grows_refl: "grows S w w"
  by (simp add: grows_def)

lemma grows_trans: "grows S w w1 \<Longrightarrow> grows S w1 w2 \<Longrightarrow> grows S w w2"
  by (auto simp: grows_def)

lemma grows_getDoc: "grows S w (fst (getDoc en r w))"
  by (simp add: grows_def getDoc_def)

lemma grows_setDoc: "r \<in> S \<Longrightarrow> grows S w (fst (setDoc en r d w))"
  by (auto simp: grows_def setDoc_def split: option.splits)


lemma doc_Inr:
  assumes "doc c i w = (w1, Inr r)"
  shows "w1 = w \<and> r = (c, i)"
  using assms by (auto simp: doc_def split: if_splits)

lemma grows_createUser: "grows S w (fst (createUserWithEmailAndPassword en e p w))"
  by (simp add: grows_def createUserWithEmailAndPassword_def split: sum.splits)


lemma grows_await:
  assumes "grows S w (fst m)"
    and "\<And>w1 x. m = (w1, Inr x) \<Longrightarrow> grows S w1 (fst (k w1 x))"
  shows "grows S w (fst (await m k))"
proof (cases m)
  case (Pair w1 res)
  show ?thesis
  proof (cases res)
    case (Inl msg)
    with Pair assms(1) show ?thesis by (simp add: await_def)
  next
    case (Inr x)
    with Pair have "grows S w w1" and "grows S w1 (fst (k w1 x))"
      using assms by simp_all
    then have "grows S w (fst (k w1 x))" by (rule grows_trans)
    with Pair Inr show ?thesis by (simp add: await_def)
  qed
qed

lemma grows_checkUsernameUnique: "grows S w (fst (checkUsernameUnique en name w))"
  unfolding checkUsernameUnique_def
  by (rule grows_await) (simp_all add: grows_getDoc grows_refl)


lemma trace_checkUsernameUnique:
  "trace (fst (checkUsernameUnique en name w)) = trace w @ [GetDoc (''usernames'', toLowerCase name)]"
  by (simp add: checkUsernameUnique_def getDoc_def await_def split: option.splits)


text \<open>The first call of a sequence stays the first call of the whole.\<close>

lemma await_first:
  assumes "grows S w (fst m)"
    and "trace (fst m) = trace w @ [c]"
    and "\<And>w1 x. m = (w1, Inr x) \<Longrightarrow> grows S w1 (fst (k w1 x))"
  shows "grows S w (fst (await m k)) \<and> (\<exists>rest. trace (fst (await m k)) = trace w @ c # rest)"
proof (cases m)
  case (Pair w1 res)
  show ?thesis
  proof (cases res)
    case (Inl msg)
    with Pair assms(1,2) show ?thesis by (simp add: await_def)
  next
    case (Inr x)
    with Pair assms(3) have g: "grows S w1 (fst (k w1 x))" by simp
    then obtain rest where "trace (fst (k w1 x)) = trace w1 @ rest"
      by (auto simp: grows_def)
    moreover from Pair assms(1) g have "grows S w (fst (k w1 x))"
      by (auto intro: grows_trans)
    ultimately show ?thesis using Pair Inr assms(2) by (simp add: await_def)
  qed
qed

subsection \<open>The workflows only add, and only at their three keys\<close>

lemma signup_uid:
  assumes "createUserWithEmailAndPassword en e p w = (w1, Inr x)"
    and "\<And>usr. signup en = Inr usr \<Longrightarrow> i = uid usr"
  shows "uid x = i"
  using assms by (auto simp: createUserWithEmailAndPassword_def split: sum.splits)

lemma AuthForm_try_Register_run:
  assumes "\<And>usr. signup en = Inr usr \<Longrightarrow> i = uid usr"
  shows "grows {(''users'', i), (''usernames'', toLowerCase (username v)), (''portfolios'', i)} w
           (fst (AuthForm_try en Register v w)) \<and>
         (\<exists>rest. trace (fst (AuthForm_try en Register v w)) =
                  trace w @ GetDoc (''usernames'', toLowerCase (username v)) # rest)"
  unfolding AuthForm_try_def mode.case claim_def AuthForm_seedDefault_def
  apply (rule await_first)
    apply (rule grows_checkUsernameUnique)
   apply (rule trace_checkUsernameUnique)
  apply (simp add: grows_refl)
  apply (rule impI)
  apply (rule grows_await)
   apply (rule grows_createUser)
  apply (frule signup_uid [where i = i])
   apply (erule assms)
  apply (rule grows_await)
   apply (rule grows_setDoc)
   apply simp
  apply (rule grows_await)
   apply (rule grows_setDoc)
   apply simp
  apply (rule grows_await)
   apply (rule grows_setDoc)
   apply simp
  apply (simp add: grows_refl)
  done



lemma fst_AuthForm_onSubmit: "fst (AuthForm_onSubmit en m v w) = fst (AuthForm_try en m v w)"
  by (simp add: AuthForm_onSubmit_def split: prod.splits sum.splits)




subsection \<open>What a completed run has done\<close>

lemma await_InrE:
  assumes "await m k = (w', Inr y)"
  obtains w1 x where "m = (w1, Inr x)" and "k w1 x = (w', Inr y)"
  using assms by (cases m; cases "snd m") (auto simp: await_def)

lemma checkUsernameUnique_Inr:
  assumes "checkUsernameUnique en name w = (w1, Inr x)"
  shows "fault en (GetDoc (''usernames'', toLowerCase name)) = None \<and>
         w1 = w\<lparr>trace := trace w @ [GetDoc (''usernames'', toLowerCase name)]\<rparr> \<and>
         x = (db w (''usernames'', toLowerCase name) = None)"
  using assms by (auto simp: checkUsernameUnique_def getDoc_def await_def split: option.splits)

lemma FinishProfile_checkUsernameUnique_Inr:
  assumes "FinishProfile_checkUsernameUnique en name w = (w1, Inr x)"
  shows "fault en (GetDoc (''usernames'', toLowerCase name)) = None \<and>
         w1 = w\<lparr>trace := trace w @ [GetDoc (''usernames'', toLowerCase name)]\<rparr> \<and>
         x = (db w (''usernames'', toLowerCase name) = None)"
  using assms by (auto simp: FinishProfile_checkUsernameUnique_def getDoc_def await_def split: option.splits)

lemma createUser_Inr:
  assumes "createUserWithEmailAndPassword en e p w = (w1, Inr usr)"
  shows "signup en = Inr usr \<and>
         w1 = w\<lparr>principals := principals w @ [usr], trace := trace w @ [CreateUser e p]\<rparr>"
  using assms by (auto simp: createUserWithEmailAndPassword_def split: sum.splits)

lemma setDoc_Inr:
  assumes "setDoc en r d w = (w1, Inr x)"
  shows "fault en (SetDoc r d) = None \<and>
         w1 = w\<lparr>db := (db w)(r \<mapsto> d), trace := trace w @ [SetDoc r d]\<rparr>"
  using assms by (auto simp: setDoc_def split: option.splits)

lemma AuthForm_try_success:
  assumes "AuthForm_try en Register v w = (w', Inr acts)"
    and "RouterPush ''/dashboard'' \<in> set acts"
  shows "fault en (GetDoc (''usernames'', toLowerCase (username v))) = None \<and>
         db w (''usernames'', toLowerCase (username v)) = None \<and>
         (\<exists>usr. signup en = Inr usr \<and>
            w' = w\<lparr>db := (db w)
                     ((''users'', uid usr) \<mapsto>
                        [(''username'', Str (toLowerCase (username v))),
                         (''email'', json_of_nullable (email usr)),
                         (''createdAt'', Timestamp (now en))],
                      (''usernames'', toLowerCase (username v)) \<mapsto> [(''uid'', Str (uid usr))],
                      (''portfolios'', uid usr) \<mapsto> AuthForm_portfolio),
                  principals := principals w @ [usr],
                  trace := trace w @
                    [GetDoc (''usernames'', toLowerCase (username v)),
                     CreateUser (email_value v) (password v),
                     SetDoc (''users'', uid usr)
                        [(''username'', Str (toLowerCase (username v))),
                         (''email'', json_of_nullable (email usr)),
                         (''createdAt'', Timestamp (now en))],
                     SetDoc (''usernames'', toLowerCase (username v)) [(''uid'', Str (uid usr))],
                     SetDoc (''portfolios'', uid usr) AuthForm_portfolio]\<rparr>)"
  using assms unfolding AuthForm_try_def mode.case claim_def AuthForm_seedDefault_def
  apply (elim await_InrE)
  apply (clarsimp split: if_splits)
  apply (elim await_InrE)
  apply (clarsimp dest!: checkUsernameUnique_Inr createUser_Inr setDoc_Inr)
  done


lemma FinishProfile_try_success:
  assumes "FinishProfile_try en su i e name w = (w', Inr acts)"
    and "RouterPush ''/dashboard'' \<in> set acts"
  shows "fault en (GetDoc (''usernames'', toLowerCase name)) = None \<and>
         db w (''usernames'', toLowerCase name) = None \<and>
         w' = w\<lparr>db := (db w)
                  ((''users'', i) \<mapsto>
                     [(''username'', Str (toLowerCase name)),
                      (''email'', Str e),
                      (''createdAt'', Timestamp (now en))],
                   (''usernames'', toLowerCase name) \<mapsto> [(''uid'', Str i)],
                   (''portfolios'', i) \<mapsto> FinishProfile_portfolio su),
               trace := trace w @
                 [GetDoc (''usernames'', toLowerCase name),
                  SetDoc (''users'', i)
                     [(''username'', Str (toLowerCase name)),
                      (''email'', Str e),
                      (''createdAt'', Timestamp (now en))],
                  SetDoc (''usernames'', toLowerCase name) [(''uid'', Str i)],
                  SetDoc (''portfolios'', i) (FinishProfile_portfolio su)]\<rparr>"
  using assms unfolding FinishProfile_try_def claim_def FinishProfile_seedDefault_def
  apply (elim await_InrE)
  apply (clarsimp split: if_splits)
  apply (elim await_InrE)
  apply (clarsimp dest!: FinishProfile_checkUsernameUnique_Inr setDoc_Inr doc_Inr)
  done

lemma AuthForm_handleSubmit_success:
  assumes "AuthForm_handleSubmit en Register v w = (w', acts)"
    and "RouterPush ''/dashboard'' \<in> set acts"
  shows "registerSchema en v = [] \<and> AuthForm_try en Register v w = (w', Inr acts)"
  using assms
  by (auto simp: AuthForm_handleSubmit_def AuthForm_onSubmit_def Let_def
           split: if_splits prod.splits sum.splits)

lemma FinishProfile_handleSubmit_success:
  assumes "FinishProfile_handleSubmit en c q name w = (w', acts)"
    and "RouterPush ''/dashboard'' \<in> set acts"
  shows "\<not> loading c \<and> user c \<noteq> None \<and> profileSchema name = [] \<and>
         (\<exists>i e. q_uid q = Some i \<and> i \<noteq> [] \<and> q_email q = Some e \<and> e \<noteq> [] \<and>
                FinishProfile_try en (user c) i e name w = (w', Inr acts))"
  using assms
  by (auto simp: FinishProfile_handleSubmit_def FinishProfile_onSubmit_def Let_def falsy_def
           split: if_splits prod.splits sum.splits option.splits)

subsection \<open>A taken username\<close>

lemma AuthForm_handleSubmit_taken:
  assumes "registerSchema en v = []"
    and "fault en (GetDoc (''usernames'', toLowerCase (username v))) = None"
    and "db w (''usernames'', toLowerCase (username v)) \<noteq> None"
  shows "AuthForm_handleSubmit en Register v w =
           (w\<lparr>trace := trace w @ [GetDoc (''usernames'', toLowerCase (username v))]\<rparr>,
            [SetError ''username'' ''This username is already taken.''])"
  using assms
  by (simp add: AuthForm_handleSubmit_def AuthForm_onSubmit_def AuthForm_try_def
                checkUsernameUnique_def getDoc_def await_def)

lemma FinishProfile_handleSubmit_taken:
  assumes "profileSchema name = []"
    and "\<not> loading c" and "user c \<noteq> None"
    and "\<not> falsy (q_uid q)" and "\<not> falsy (q_email q)"
    and "fault en (GetDoc (''usernames'', toLowerCase name)) = None"
    and "db w (''usernames'', toLowerCase name) \<noteq> None"
  shows "FinishProfile_handleSubmit en c q name w =
           (w\<lparr>trace := trace w @ [GetDoc (''usernames'', toLowerCase name)]\<rparr>,
            [SetError ''username'' ''This username is already taken.''])"
  using assms
  by (simp add: FinishProfile_handleSubmit_def FinishProfile_onSubmit_def FinishProfile_try_def
                FinishProfile_checkUsernameUnique_def getDoc_def await_def)

subsection \<open>Concrete runs\<close>

lemma doc_acct:
  "doc c ''acct-1'' w = (w, Inr (c, ''acct-1''))"
  "doc c ''acct-2'' w = (w, Inr (c, ''acct-2''))"
  "doc c ''acct-9'' w = (w, Inr (c, ''acct-9''))"
  by (simp_all add: doc_def doc_segments_def)

lemma quiet_env_simps:
  "fault quiet_env c = None" "signup quiet_env = Inr acct1" "signin quiet_env = Inr acct1"
  "now quiet_env = 7"
  by (simp_all add: quiet_env_def)

lemma acct1_simps: "uid acct1 = ''acct-1''" "email acct1 = Some ''u@example.com''" "photoURL acct1 = None"
  by (simp_all add: acct1_def)

lemma acct2_simps: "uid acct2 = ''acct-2''" "email acct2 = Some ''g@example.com''"
  "photoURL acct2 = Some ''https://example.com/a.png''"
  by (simp_all add: acct2_def)

lemma new_user_simps: "username new_user = ''new_user_1''" "email_value new_user = ''u@example.com''"
  "password new_user = ''secret1''"
  by (simp_all add: new_user_def)

lemma registerSchema_new_user: "registerSchema quiet_env new_user = []"
  by code_simp

lemma profileSchema_new_user_1: "profileSchema ''new_user_1'' = []"
  by code_simp

lemma AuthForm_new_user_run:
  "AuthForm_handleSubmit quiet_env Register new_user empty_world =
     (\<lparr>db = [(''users'', ''acct-1'') \<mapsto>
                  [(''username'', Str ''new_user_1''),
                   (''email'', Str ''u@example.com''),
                   (''createdAt'', Timestamp 7)],
              (''usernames'', ''new_user_1'') \<mapsto> [(''uid'', Str ''acct-1'')],
              (''portfolios'', ''acct-1'') \<mapsto> AuthForm_portfolio],
       principals = [acct1],
       trace = [GetDoc (''usernames'', ''new_user_1''),
                CreateUser ''u@example.com'' ''secret1'',
                SetDoc (''users'', ''acct-1'')
                  [(''username'', Str ''new_user_1''),
                   (''email'', Str ''u@example.com''),
                   (''createdAt'', Timestamp 7)],
                SetDoc (''usernames'', ''new_user_1'') [(''uid'', Str ''acct-1'')],
                SetDoc (''portfolios'', ''acct-1'') AuthForm_portfolio]\<rparr>,
      [RouterPush ''/dashboard''])"
  by (simp add: AuthForm_handleSubmit_def registerSchema_new_user AuthForm_onSubmit_def
        AuthForm_try_def checkUsernameUnique_def getDoc_def setDoc_def await_def claim_def
        AuthForm_seedDefault_def createUserWithEmailAndPassword_def json_of_nullable_def
        toLowerCase_new_user_1 new_user_simps quiet_env_simps empty_world_def acct1_simps)


lemma alice_simps:
  "username alice_upper = ''Alice''" "email_value alice_upper = ''u@example.com''" "password alice_upper = ''secret1''"
  "username alice_lower = ''alice''" "email_value alice_lower = ''b@example.com''" "password alice_lower = ''secret2''"
  by (simp_all add: alice_upper_def alice_lower_def)

lemma registerSchema_alice: "registerSchema quiet_env alice_upper = []" "registerSchema quiet_env alice_lower = []"
  by code_simp+

lemma google_simps:
  "user google_session = Some acct2" "userData google_session = None" "loading google_session = False"
  "q_uid google_query = Some ''acct-2''" "q_email google_query = Some ''g@example.com''"
  "q_uid forged_query = Some ''acct-9''" "q_email forged_query = Some ''victim@example.com''"
  by (simp_all add: google_session_def google_query_def forged_query_def)

lemma FinishProfile_new_user_run:
  "FinishProfile_handleSubmit quiet_env google_session google_query ''new_user_1'' empty_world =
     (\<lparr>db = [(''users'', ''acct-2'') \<mapsto>
                  [(''username'', Str ''new_user_1''),
                   (''email'', Str ''g@example.com''),
                   (''createdAt'', Timestamp 7)],
              (''usernames'', ''new_user_1'') \<mapsto> [(''uid'', Str ''acct-2'')],
              (''portfolios'', ''acct-2'') \<mapsto> FinishProfile_portfolio (Some acct2)],
       principals = [],
       trace = [GetDoc (''usernames'', ''new_user_1''),
                SetDoc (''users'', ''acct-2'')
                  [(''username'', Str ''new_user_1''),
                   (''email'', Str ''g@example.com''),
                   (''createdAt'', Timestamp 7)],
                SetDoc (''usernames'', ''new_user_1'') [(''uid'', Str ''acct-2'')],
                SetDoc (''portfolios'', ''acct-2'') (FinishProfile_portfolio (Some acct2))]\<rparr>,
      [Toast Default ''Profile complete!'' ''Welcome to PortfolioHub.'', RouterPush ''/dashboard''])"
  by (simp add: FinishProfile_handleSubmit_def profileSchema_new_user_1 FinishProfile_onSubmit_def
        FinishProfile_try_def FinishProfile_checkUsernameUnique_def getDoc_def setDoc_def await_def doc_acct
        claim_def FinishProfile_seedDefault_def falsy_def
        toLowerCase_new_user_1 google_simps quiet_env_simps empty_world_def)

text \<open>An account identifier that \<open>doc\<close> refuses: the read is made, nothing is written.\<close>

lemma FinishProfile_refused_uid_run:
  "FinishProfile_handleSubmit quiet_env google_session
       \<lparr>q_uid = Some ''a/b'', q_email = Some ''g@example.com''\<rparr> ''new_user_1'' empty_world =
     (empty_world\<lparr>trace := [GetDoc (''usernames'', ''new_user_1'')]\<rparr>,
      [Toast Destructive ''Error'' ''Failed to save profile. Please try again.''])"
  by (simp add: FinishProfile_handleSubmit_def profileSchema_new_user_1 FinishProfile_onSubmit_def
        FinishProfile_try_def FinishProfile_checkUsernameUnique_def getDoc_def await_def
        doc_def doc_segments_def falsy_def
        toLowerCase_new_user_1 google_simps quiet_env_simps empty_world_def)

lemma taken_world_simps:
  "db taken_world (''usernames'', ''alice'') = Some [(''uid'', Str ''acct-0'')]"
  "principals taken_world = []" "trace taken_world = []"
  by (simp_all add: taken_world_def)

lemma empty_world_simps: "db empty_world r = None" "principals empty_world = []" "trace empty_world = []"
  by (simp_all add: empty_world_def)

lemma AuthForm_Alice_run:
  "AuthForm_handleSubmit quiet_env Register alice_upper empty_world =
     (\<lparr>db = [(''users'', ''acct-1'') \<mapsto>
                  [(''username'', Str ''alice''),
                   (''email'', Str ''u@example.com''),
                   (''createdAt'', Timestamp 7)],
              (''usernames'', ''alice'') \<mapsto> [(''uid'', Str ''acct-1'')],
              (''portfolios'', ''acct-1'') \<mapsto> AuthForm_portfolio],
       principals = [acct1],
       trace = [GetDoc (''usernames'', ''alice''),
                CreateUser ''u@example.com'' ''secret1'',
                SetDoc (''users'', ''acct-1'')
                  [(''username'', Str ''alice''),
                   (''email'', Str ''u@example.com''),
                   (''createdAt'', Timestamp 7)],
                SetDoc (''usernames'', ''alice'') [(''uid'', Str ''acct-1'')],
                SetDoc (''portfolios'', ''acct-1'') AuthForm_portfolio]\<rparr>,
      [RouterPush ''/dashboard''])"
  by (simp add: AuthForm_handleSubmit_def registerSchema_alice AuthForm_onSubmit_def
        AuthForm_try_def checkUsernameUnique_def getDoc_def setDoc_def await_def claim_def
        AuthForm_seedDefault_def createUserWithEmailAndPassword_def json_of_nullable_def
        toLowerCase_Alice alice_simps quiet_env_simps empty_world_def acct1_simps)

lemma AuthForm_alice_run:
  "AuthForm_handleSubmit quiet_env Register alice_lower empty_world =
     (\<lparr>db = [(''users'', ''acct-1'') \<mapsto>
                  [(''username'', Str ''alice''),
                   (''email'', Str ''u@example.com''),
                   (''createdAt'', Timestamp 7)],
              (''usernames'', ''alice'') \<mapsto> [(''uid'', Str ''acct-1'')],
              (''portfolios'', ''acct-1'') \<mapsto> AuthForm_portfolio],
       principals = [acct1],
       trace = [GetDoc (''usernames'', ''alice''),
                CreateUser ''b@example.com'' ''secret2'',
                SetDoc (''users'', ''acct-1'')
                  [(''username'', Str ''alice''),
                   (''email'', Str ''u@example.com''),
                   (''createdAt'', Timestamp 7)],
                SetDoc (''usernames'', ''alice'') [(''uid'', Str ''acct-1'')],
                SetDoc (''portfolios'', ''acct-1'') AuthForm_portfolio]\<rparr>,
      [RouterPush ''/dashboard''])"
  by (simp add: AuthForm_handleSubmit_def registerSchema_alice AuthForm_onSubmit_def
        AuthForm_try_def checkUsernameUnique_def getDoc_def setDoc_def await_def claim_def
        AuthForm_seedDefault_def createUserWithEmailAndPassword_def json_of_nullable_def
        toLowerCase_alice alice_simps quiet_env_simps empty_world_def acct1_simps)

subsection \<open>The Account of a completed registration\<close>

lemma completed_registration_account:
  assumes "(AuthForm_handleSubmit en Register v w = (w1, acts) \<and> username v = name) \<or>
           FinishProfile_handleSubmit en c q name w = (w1, acts)"
    and "RouterPush ''/dashboard'' \<in> set acts"
  shows "\<exists>i d. db w1 (''users'', i) = Some d \<and>
               map_of d ''username'' = Some (Str (toLowerCase name)) \<and>
               db w1 (''usernames'', toLowerCase name) = Some [(''uid'', Str i)]"
  using assms(1)
proof
  assume a: "AuthForm_handleSubmit en Register v w = (w1, acts) \<and> username v = name"
  with assms(2) have "AuthForm_try en Register v w = (w1, Inr acts)"
    using AuthForm_handleSubmit_success [of en v w w1 acts] by simp
  from AuthForm_try_success [OF this assms(2)]
  obtain usr where "w1 = w\<lparr>db := (db w)
                     ((''users'', uid usr) \<mapsto>
                        [(''username'', Str (toLowerCase (username v))),
                         (''email'', json_of_nullable (email usr)),
                         (''createdAt'', Timestamp (now en))],
                      (''usernames'', toLowerCase (username v)) \<mapsto> [(''uid'', Str (uid usr))],
                      (''portfolios'', uid usr) \<mapsto> AuthForm_portfolio),
                  principals := principals w @ [usr],
                  trace := trace w @
                    [GetDoc (''usernames'', toLowerCase (username v)),
                     CreateUser (email_value v) (password v),
                     SetDoc (''users'', uid usr)
                        [(''username'', Str (toLowerCase (username v))),
                         (''email'', json_of_nullable (email usr)),
                         (''createdAt'', Timestamp (now en))],
                     SetDoc (''usernames'', toLowerCase (username v)) [(''uid'', Str (uid usr))],
                     SetDoc (''portfolios'', uid usr) AuthForm_portfolio]\<rparr>"
    by blast
  with a show ?thesis
    by (intro exI [of _ "uid usr"]) auto
next
  assume "FinishProfile_handleSubmit en c q name w = (w1, acts)"
  from FinishProfile_handleSubmit_success [OF this assms(2)]
  obtain i e where "FinishProfile_try en (user c) i e name w = (w1, Inr acts)" by blast
  from FinishProfile_try_success [OF this assms(2)]
  show ?thesis
    by (intro exI [of _ i]) auto
qed

subsection \<open>Case variants normalize alike\<close>

lemma toLowerCase_char_upper:
  assumes "(of_char c :: nat) + 32 = of_char d" and "ascii_letter c" and "ascii_letter d"
  shows "toLowerCase_char c = d \<and> toLowerCase_char d = d"
proof -
  from assms have c: "65 \<le> (of_char c :: nat) \<and> (of_char c :: nat) \<le> 90"
    by (auto simp: ascii_letter_def Let_def)
  from assms have d: "\<not> (of_char d :: nat) \<le> 90"
    by (auto simp: ascii_letter_def Let_def)
  have "char_of ((of_char c :: nat) + 32) = char_of (of_char d :: nat)"
    using assms(1) by simp
  then have "char_of ((of_char c :: nat) + 32) = d" by simp
  with c d show ?thesis by (simp add: toLowerCase_char_def Let_def)
qed

lemma same_letter_toLowerCase_char:
  assumes "same_letter c d"
  shows "toLowerCase_char c = toLowerCase_char d"
  using assms toLowerCase_char_upper [of c d] toLowerCase_char_upper [of d c]
  by (auto simp: same_letter_def)

lemma differ_only_in_case_toLowerCase:
  assumes "differ_only_in_case s t"
  shows "toLowerCase s = toLowerCase t"
  using assms unfolding differ_only_in_case_def toLowerCase_def
  by (induction s t rule: list_all2_induct) (simp_all add: same_letter_toLowerCase_char)

lemma differ_Alice_alice: "differ_only_in_case ''Alice'' ''alice''"
  by code_simp

lemma acct1_session_simps:
  "user acct1_session = Some acct1" "userData acct1_session = None" "loading acct1_session = False"
  "q_uid acct1_query = Some ''acct-1''" "q_email acct1_query = Some ''u@example.com''"
  by (simp_all add: acct1_session_def acct1_query_def)

lemma FinishProfile_acct1_run:
  "FinishProfile_handleSubmit quiet_env acct1_session acct1_query ''new_user_1'' empty_world =
     (\<lparr>db = [(''users'', ''acct-1'') \<mapsto>
                  [(''username'', Str ''new_user_1''),
                   (''email'', Str ''u@example.com''),
                   (''createdAt'', Timestamp 7)],
              (''usernames'', ''new_user_1'') \<mapsto> [(''uid'', Str ''acct-1'')],
              (''portfolios'', ''acct-1'') \<mapsto> FinishProfile_portfolio (Some acct1)],
       principals = [],
       trace = [GetDoc (''usernames'', ''new_user_1''),
                SetDoc (''users'', ''acct-1'')
                  [(''username'', Str ''new_user_1''),
                   (''email'', Str ''u@example.com''),
                   (''createdAt'', Timestamp 7)],
                SetDoc (''usernames'', ''new_user_1'') [(''uid'', Str ''acct-1'')],
                SetDoc (''portfolios'', ''acct-1'') (FinishProfile_portfolio (Some acct1))]\<rparr>,
      [Toast Default ''Profile complete!'' ''Welcome to PortfolioHub.'', RouterPush ''/dashboard''])"
  by (simp add: FinishProfile_handleSubmit_def profileSchema_new_user_1 FinishProfile_onSubmit_def
        FinishProfile_try_def FinishProfile_checkUsernameUnique_def getDoc_def setDoc_def await_def doc_acct
        claim_def FinishProfile_seedDefault_def falsy_def
        toLowerCase_new_user_1 acct1_session_simps quiet_env_simps empty_world_def)

lemma FinishProfile_forged_run:
  "FinishProfile_handleSubmit quiet_env google_session forged_query ''new_user_1'' empty_world =
     (\<lparr>db = [(''users'', ''acct-9'') \<mapsto>
                  [(''username'', Str ''new_user_1''),
                   (''email'', Str ''victim@example.com''),
                   (''createdAt'', Timestamp 7)],
              (''usernames'', ''new_user_1'') \<mapsto> [(''uid'', Str ''acct-9'')],
              (''portfolios'', ''acct-9'') \<mapsto> FinishProfile_portfolio (Some acct2)],
       principals = [],
       trace = [GetDoc (''usernames'', ''new_user_1''),
                SetDoc (''users'', ''acct-9'')
                  [(''username'', Str ''new_user_1''),
                   (''email'', Str ''victim@example.com''),
                   (''createdAt'', Timestamp 7)],
                SetDoc (''usernames'', ''new_user_1'') [(''uid'', Str ''acct-9'')],
                SetDoc (''portfolios'', ''acct-9'') (FinishProfile_portfolio (Some acct2))]\<rparr>,
      [Toast Default ''Profile complete!'' ''Welcome to PortfolioHub.'', RouterPush ''/dashboard''])"
  by (simp add: FinishProfile_handleSubmit_def profileSchema_new_user_1 FinishProfile_onSubmit_def
        FinishProfile_try_def FinishProfile_checkUsernameUnique_def getDoc_def setDoc_def await_def doc_acct
        claim_def FinishProfile_seedDefault_def falsy_def
        toLowerCase_new_user_1 google_simps quiet_env_simps empty_world_def)

section \<open>The registry claim is an unconditional overwrite\<close>

text \<open>
  C1. For every username and account identifiers \<open>a\<close> and \<open>b\<close> with \<open>b \<noteq> a\<close>: once a
  claim of the username for \<open>a\<close> has succeeded, the availability check (when its read
  returns) answers false, and a later claim of the same username for \<open>b\<close> (when the
  store takes the write at all) succeeds although the key exists, and leaves the registry
  entry at the normalized username pointing at \<open>b\<close>, no longer at \<open>a\<close>.
\<close>

theorem claim_overwrites:
  assumes "claim en1 name a w = (w1, Inr ())"
    and "fault en2 (GetDoc (''usernames'', toLowerCase name)) = None"
    and "b \<noteq> a"
    and "fault en3 (SetDoc (''usernames'', toLowerCase name) [(''uid'', Str b)]) = None"
  shows "snd (checkUsernameUnique en2 name w1) = Inr False \<and>
         (\<exists>w3. claim en3 name b (fst (checkUsernameUnique en2 name w1)) = (w3, Inr ()) \<and>
               db w3 (''usernames'', toLowerCase name) = Some [(''uid'', Str b)] \<and>
               db w3 (''usernames'', toLowerCase name) \<noteq> Some [(''uid'', Str a)])"
  using assms
  by (auto simp: store_defs split: option.splits)

theorem claim_overwrites_witness:
  "snd (claim quiet_env ''Alice'' ''acct-1'' empty_world) = Inr () \<and>
   snd (checkUsernameUnique quiet_env ''Alice'' (fst (claim quiet_env ''Alice'' ''acct-1'' empty_world))) = Inr False \<and>
   (\<exists>w3. claim quiet_env ''Alice'' ''acct-2''
            (fst (checkUsernameUnique quiet_env ''Alice'' (fst (claim quiet_env ''Alice'' ''acct-1'' empty_world)))) = (w3, Inr ()) \<and>
          db w3 (''usernames'', ''alice'') = Some [(''uid'', Str ''acct-2'')])"
proof -
  have c: "claim quiet_env ''Alice'' ''acct-1'' empty_world =
      (fst (claim quiet_env ''Alice'' ''acct-1'' empty_world), Inr ())"
    by (simp add: claim_def setDoc_def quiet_env_def)
  have r: "fault quiet_env (GetDoc (''usernames'', toLowerCase ''Alice'')) = None"
    by (simp add: quiet_env_def)
  have s: "fault quiet_env (SetDoc (''usernames'', toLowerCase ''Alice'') [(''uid'', Str ''acct-2'')]) = None"
    by (simp add: quiet_env_def)
  have d: "''acct-2'' \<noteq> ''acct-1''" by simp
  have e: "snd (claim quiet_env ''Alice'' ''acct-1'' empty_world) = Inr ()"
    by (simp add: claim_def setDoc_def quiet_env_def)
  from claim_overwrites [OF c r d s] e show ?thesis
    unfolding toLowerCase_Alice by blast
qed

section \<open>A completed run writes one Account, one registry entry and one profile\<close>

text \<open>
  C2. A submission of the registration form that reaches the dashboard had a valid input
  (the schema reported no issue) and a username absent from the registry, and it made
  exactly three writes: the Account at the account identifier the Identity Provider
  issued, holding the normalized username; the registry entry at the normalized username,
  holding that account identifier; and the profile at the same account identifier. The
  completion form does the same with the account identifier it is given.
\<close>

theorem registration_creates_three_records:
  "(AuthForm_handleSubmit en Register v w = (w', acts) \<and> RouterPush ''/dashboard'' \<in> set acts \<longrightarrow>
      registerSchema en v = [] \<and>
      db w (''usernames'', toLowerCase (username v)) = None \<and>
      (\<exists>usr. signup en = Inr usr \<and>
         db w' (''users'', uid usr) =
           Some [(''username'', Str (toLowerCase (username v))),
                 (''email'', json_of_nullable (email usr)),
                 (''createdAt'', Timestamp (now en))] \<and>
         db w' (''usernames'', toLowerCase (username v)) = Some [(''uid'', Str (uid usr))] \<and>
         db w' (''portfolios'', uid usr) = Some AuthForm_portfolio \<and>
         trace w' = trace w @
           [GetDoc (''usernames'', toLowerCase (username v)),
            CreateUser (email_value v) (password v),
            SetDoc (''users'', uid usr)
              [(''username'', Str (toLowerCase (username v))),
               (''email'', json_of_nullable (email usr)),
               (''createdAt'', Timestamp (now en))],
            SetDoc (''usernames'', toLowerCase (username v)) [(''uid'', Str (uid usr))],
            SetDoc (''portfolios'', uid usr) AuthForm_portfolio])) \<and>
   (FinishProfile_handleSubmit en c q name w = (w2, acts2) \<and> RouterPush ''/dashboard'' \<in> set acts2 \<longrightarrow>
      profileSchema name = [] \<and>
      db w (''usernames'', toLowerCase name) = None \<and>
      (\<exists>i e. q_uid q = Some i \<and> q_email q = Some e \<and>
         db w2 (''users'', i) =
           Some [(''username'', Str (toLowerCase name)),
                 (''email'', Str e),
                 (''createdAt'', Timestamp (now en))] \<and>
         db w2 (''usernames'', toLowerCase name) = Some [(''uid'', Str i)] \<and>
         db w2 (''portfolios'', i) = Some (FinishProfile_portfolio (user c)) \<and>
         trace w2 = trace w @
           [GetDoc (''usernames'', toLowerCase name),
            SetDoc (''users'', i)
              [(''username'', Str (toLowerCase name)),
               (''email'', Str e),
               (''createdAt'', Timestamp (now en))],
            SetDoc (''usernames'', toLowerCase name) [(''uid'', Str i)],
            SetDoc (''portfolios'', i) (FinishProfile_portfolio (user c))]))"
proof (intro conjI impI)
  assume a: "AuthForm_handleSubmit en Register v w = (w', acts) \<and> RouterPush ''/dashboard'' \<in> set acts"
  then have s: "registerSchema en v = []" and t: "AuthForm_try en Register v w = (w', Inr acts)"
    using AuthForm_handleSubmit_success [of en v w w' acts] by simp_all
  from s show "registerSchema en v = []" .
  from AuthForm_try_success [OF t] a
  show "db w (''usernames'', toLowerCase (username v)) = None" by simp
  from AuthForm_try_success [OF t] a
  obtain usr where u: "signup en = Inr usr"
    and w': "w' = w\<lparr>db := (db w)
                     ((''users'', uid usr) \<mapsto>
                        [(''username'', Str (toLowerCase (username v))),
                         (''email'', json_of_nullable (email usr)),
                         (''createdAt'', Timestamp (now en))],
                      (''usernames'', toLowerCase (username v)) \<mapsto> [(''uid'', Str (uid usr))],
                      (''portfolios'', uid usr) \<mapsto> AuthForm_portfolio),
                  principals := principals w @ [usr],
                  trace := trace w @
                    [GetDoc (''usernames'', toLowerCase (username v)),
                     CreateUser (email_value v) (password v),
                     SetDoc (''users'', uid usr)
                        [(''username'', Str (toLowerCase (username v))),
                         (''email'', json_of_nullable (email usr)),
                         (''createdAt'', Timestamp (now en))],
                     SetDoc (''usernames'', toLowerCase (username v)) [(''uid'', Str (uid usr))],
                     SetDoc (''portfolios'', uid usr) AuthForm_portfolio]\<rparr>"
    by blast
  show "\<exists>usr. signup en = Inr usr \<and>
         db w' (''users'', uid usr) =
           Some [(''username'', Str (toLowerCase (username v))),
                 (''email'', json_of_nullable (email usr)),
                 (''createdAt'', Timestamp (now en))] \<and>
         db w' (''usernames'', toLowerCase (username v)) = Some [(''uid'', Str (uid usr))] \<and>
         db w' (''portfolios'', uid usr) = Some AuthForm_portfolio \<and>
         trace w' = trace w @
           [GetDoc (''usernames'', toLowerCase (username v)),
            CreateUser (email_value v) (password v),
            SetDoc (''users'', uid usr)
              [(''username'', Str (toLowerCase (username v))),
               (''email'', json_of_nullable (email usr)),
               (''createdAt'', Timestamp (now en))],
            SetDoc (''usernames'', toLowerCase (username v)) [(''uid'', Str (uid usr))],
            SetDoc (''portfolios'', uid usr) AuthForm_portfolio]"
    by (rule exI [of _ usr]) (simp add: u w')
next
  assume a: "FinishProfile_handleSubmit en c q name w = (w2, acts2) \<and> RouterPush ''/dashboard'' \<in> set acts2"
  then obtain i e where s: "profileSchema name = []" and i: "q_uid q = Some i" and e: "q_email q = Some e"
    and t: "FinishProfile_try en (user c) i e name w = (w2, Inr acts2)"
    using FinishProfile_handleSubmit_success [of en c q name w w2 acts2] by blast
  from s show "profileSchema name = []" .
  from FinishProfile_try_success [OF t] a
  show "db w (''usernames'', toLowerCase name) = None" by simp
  from FinishProfile_try_success [OF t] a
  have w2: "w2 = w\<lparr>db := (db w)
                  ((''users'', i) \<mapsto>
                     [(''username'', Str (toLowerCase name)),
                      (''email'', Str e),
                      (''createdAt'', Timestamp (now en))],
                   (''usernames'', toLowerCase name) \<mapsto> [(''uid'', Str i)],
                   (''portfolios'', i) \<mapsto> FinishProfile_portfolio (user c)),
               trace := trace w @
                 [GetDoc (''usernames'', toLowerCase name),
                  SetDoc (''users'', i)
                     [(''username'', Str (toLowerCase name)),
                      (''email'', Str e),
                      (''createdAt'', Timestamp (now en))],
                  SetDoc (''usernames'', toLowerCase name) [(''uid'', Str i)],
                  SetDoc (''portfolios'', i) (FinishProfile_portfolio (user c))]\<rparr>"
    by blast
  show "\<exists>i e. q_uid q = Some i \<and> q_email q = Some e \<and>
         db w2 (''users'', i) =
           Some [(''username'', Str (toLowerCase name)),
                 (''email'', Str e),
                 (''createdAt'', Timestamp (now en))] \<and>
         db w2 (''usernames'', toLowerCase name) = Some [(''uid'', Str i)] \<and>
         db w2 (''portfolios'', i) = Some (FinishProfile_portfolio (user c)) \<and>
         trace w2 = trace w @
           [GetDoc (''usernames'', toLowerCase name),
            SetDoc (''users'', i)
              [(''username'', Str (toLowerCase name)),
               (''email'', Str e),
               (''createdAt'', Timestamp (now en))],
            SetDoc (''usernames'', toLowerCase name) [(''uid'', Str i)],
            SetDoc (''portfolios'', i) (FinishProfile_portfolio (user c))]"
    by (rule exI [of _ i], rule exI [of _ e]) (simp add: i e w2)
qed

theorem registration_creates_three_records_witness:
  "db (fst (AuthForm_handleSubmit quiet_env Register new_user empty_world)) (''users'', ''acct-1'') =
     Some [(''username'', Str ''new_user_1''), (''email'', Str ''u@example.com''), (''createdAt'', Timestamp 7)] \<and>
   db (fst (AuthForm_handleSubmit quiet_env Register new_user empty_world)) (''usernames'', ''new_user_1'') =
     Some [(''uid'', Str ''acct-1'')] \<and>
   db (fst (AuthForm_handleSubmit quiet_env Register new_user empty_world)) (''portfolios'', ''acct-1'') =
     Some AuthForm_portfolio \<and>
   db (fst (FinishProfile_handleSubmit quiet_env google_session google_query ''new_user_1'' empty_world))
      (''users'', ''acct-2'') =
     Some [(''username'', Str ''new_user_1''), (''email'', Str ''g@example.com''), (''createdAt'', Timestamp 7)] \<and>
   db (fst (FinishProfile_handleSubmit quiet_env google_session google_query ''new_user_1'' empty_world))
      (''usernames'', ''new_user_1'') =
     Some [(''uid'', Str ''acct-2'')] \<and>
   db (fst (FinishProfile_handleSubmit quiet_env google_session google_query ''new_user_1'' empty_world))
      (''portfolios'', ''acct-2'') =
     Some (FinishProfile_portfolio (Some acct2))"
  using registration_creates_three_records
    [of quiet_env new_user empty_world
        "fst (AuthForm_handleSubmit quiet_env Register new_user empty_world)"
        "snd (AuthForm_handleSubmit quiet_env Register new_user empty_world)"
        google_session google_query "''new_user_1''"
        "fst (FinishProfile_handleSubmit quiet_env google_session google_query ''new_user_1'' empty_world)"
        "snd (FinishProfile_handleSubmit quiet_env google_session google_query ''new_user_1'' empty_world)"]
  by (simp add: AuthForm_new_user_run FinishProfile_new_user_run quiet_env_simps acct1_simps
        json_of_nullable_def new_user_simps toLowerCase_new_user_1 google_simps)

section \<open>The availability check comes before the sign-up\<close>

text \<open>
  C3, as the code has it. In the direct registration the username availability check is
  the first call of every validated submission, before the Identity Provider is asked to
  create the principal. When the candidate username is unavailable, the submission ends
  with the error "This username is already taken." at the username field, and the read is
  all that happened: the store and the principals of the Identity Provider are as before,
  so no credential is orphaned.
\<close>

theorem availability_check_precedes_principal:
  assumes "registerSchema en v = []"
  shows "(\<exists>rest. trace (fst (AuthForm_handleSubmit en Register v w)) =
                  trace w @ GetDoc (''usernames'', toLowerCase (username v)) # rest) \<and>
         (fault en (GetDoc (''usernames'', toLowerCase (username v))) = None \<and>
          db w (''usernames'', toLowerCase (username v)) \<noteq> None \<longrightarrow>
            AuthForm_handleSubmit en Register v w =
              (w\<lparr>trace := trace w @ [GetDoc (''usernames'', toLowerCase (username v))]\<rparr>,
               [SetError ''username'' ''This username is already taken.'']))"
proof (intro conjI impI)
  have "\<And>usr. signup en = Inr usr \<Longrightarrow> (case signup en of Inr u \<Rightarrow> uid u | Inl _ \<Rightarrow> []) = uid usr"
    by simp
  from AuthForm_try_Register_run [of en _ v w, OF this]
  show "\<exists>rest. trace (fst (AuthForm_handleSubmit en Register v w)) =
                  trace w @ GetDoc (''usernames'', toLowerCase (username v)) # rest"
    using assms by (simp add: AuthForm_handleSubmit_def fst_AuthForm_onSubmit)
next
  assume "fault en (GetDoc (''usernames'', toLowerCase (username v))) = None \<and>
          db w (''usernames'', toLowerCase (username v)) \<noteq> None"
  with assms show "AuthForm_handleSubmit en Register v w =
              (w\<lparr>trace := trace w @ [GetDoc (''usernames'', toLowerCase (username v))]\<rparr>,
               [SetError ''username'' ''This username is already taken.''])"
    by (simp add: AuthForm_handleSubmit_taken)
qed

theorem availability_check_precedes_principal_witness:
  "(\<exists>rest. trace (fst (AuthForm_handleSubmit quiet_env Register alice_upper taken_world)) =
                  GetDoc (''usernames'', ''alice'') # rest) \<and>
   AuthForm_handleSubmit quiet_env Register alice_upper taken_world =
     (taken_world\<lparr>trace := [GetDoc (''usernames'', ''alice'')]\<rparr>,
      [SetError ''username'' ''This username is already taken.''])"
  using availability_check_precedes_principal [of quiet_env alice_upper taken_world]
  by (simp add: registerSchema_alice alice_simps toLowerCase_Alice quiet_env_simps taken_world_simps)

text \<open>
  C3 as stated fails. The username \<open>Alice\<close> is taken and the Identity Provider would
  accept the sign-up; the submission ends with the username error, the Identity Provider
  has no principal and was never called: the only call is the registry read.
\<close>

theorem orphaned_principal_counterexample:
  "signup quiet_env = Inr acct1 \<and>
   db taken_world (''usernames'', toLowerCase (username alice_upper)) \<noteq> None \<and>
   snd (AuthForm_handleSubmit quiet_env Register alice_upper taken_world) =
     [SetError ''username'' ''This username is already taken.''] \<and>
   principals (fst (AuthForm_handleSubmit quiet_env Register alice_upper taken_world)) = [] \<and>
   trace (fst (AuthForm_handleSubmit quiet_env Register alice_upper taken_world)) =
     [GetDoc (''usernames'', ''alice'')]"
  by (simp add: AuthForm_handleSubmit_taken registerSchema_alice alice_simps toLowerCase_Alice
        quiet_env_simps taken_world_simps)

section \<open>A malformed username never reaches the store\<close>

text \<open>
  C9. A candidate username shorter than 3 characters, longer than 20, or holding a
  character outside \<open>[A-Za-z0-9_]\<close> is rejected by validation in the registration form
  and in the completion form: the world after the submission is the world before it (no
  store read, no store write, no call at all), and the username field shows an error
  wherever the form is shown.
\<close>

theorem format_rejection:
  assumes "length (username v) < 3 \<or> 20 < length (username v) \<or> (\<exists>c\<in>set (username v). \<not> word_char c)"
  shows "fst (AuthForm_handleSubmit en Register v w) = w \<and>
         (\<exists>msg. SetError ''username'' msg \<in> set (snd (AuthForm_handleSubmit en Register v w))) \<and>
         fst (FinishProfile_handleSubmit en c q (username v) w) = w \<and>
         (\<not> loading c \<and> user c \<noteq> None \<longrightarrow>
            (\<exists>msg. SetError ''username'' msg \<in> set (snd (FinishProfile_handleSubmit en c q (username v) w))))"
proof -
  from username_issues_bad [OF assms]
  obtain m ms where ms: "username_issues (username v) = m # ms"
    by (cases "username_issues (username v)") auto
  show ?thesis
    by (auto simp: AuthForm_handleSubmit_def FinishProfile_handleSubmit_def registerSchema_def profileSchema_def ms Let_def)
qed

theorem format_rejection_witness:
  "fst (AuthForm_handleSubmit quiet_env Register short_user empty_world) = empty_world \<and>
   (\<exists>msg. SetError ''username'' msg \<in> set (snd (AuthForm_handleSubmit quiet_env Register short_user empty_world))) \<and>
   fst (FinishProfile_handleSubmit quiet_env google_session google_query ''ab'' empty_world) = empty_world \<and>
   (\<exists>msg. SetError ''username'' msg \<in>
       set (snd (FinishProfile_handleSubmit quiet_env google_session google_query ''ab'' empty_world)))"
  using format_rejection [of short_user quiet_env empty_world google_session google_query]
  by (simp add: short_user_def google_simps)

section \<open>Frame: three keys at most, nothing deleted\<close>



section \<open>Usernames that differ only in case share one registry key\<close>

text \<open>
  C7. Two usernames that differ only in letter case are normalized to the same registry
  key, so the availability checks of both forms and the registry claim treat them alike,
  and the Account written by a completed registration of either spelling, through either
  form, holds that one normalized username and is the Account the registry entry at that
  key points to. Once one of them has been registered through either form, and as long
  as no document is removed afterwards, a submission of the other (valid, its read
  answered) is rejected in either form with "This username is already taken.", and
  nothing is written.
\<close>

theorem case_variants_share_registry_key:
  assumes "differ_only_in_case name name'"
    and "(AuthForm_handleSubmit en Register v w = (w1, acts) \<and> username v = name) \<or>
         FinishProfile_handleSubmit en c q name w = (w1, acts)"
    and "RouterPush ''/dashboard'' \<in> set acts"
    and "\<And>r. db w1 r \<noteq> None \<Longrightarrow> db w2 r \<noteq> None"
    and "fault en' (GetDoc (''usernames'', toLowerCase name')) = None"
  shows "toLowerCase name = toLowerCase name' \<and>
         checkUsernameUnique en' name w2 = checkUsernameUnique en' name' w2 \<and>
         FinishProfile_checkUsernameUnique en' name w2 = FinishProfile_checkUsernameUnique en' name' w2 \<and>
         claim en' name a w2 = claim en' name' a w2 \<and>
         (\<exists>i d. db w1 (''users'', i) = Some d \<and>
                map_of d ''username'' = Some (Str (toLowerCase name')) \<and>
                db w1 (''usernames'', toLowerCase name') = Some [(''uid'', Str i)]) \<and>
         (registerSchema en' v' = [] \<and> username v' = name' \<longrightarrow>
            AuthForm_handleSubmit en' Register v' w2 =
              (w2\<lparr>trace := trace w2 @ [GetDoc (''usernames'', toLowerCase name')]\<rparr>,
               [SetError ''username'' ''This username is already taken.''])) \<and>
         (profileSchema name' = [] \<and> \<not> loading c' \<and> user c' \<noteq> None \<and>
          \<not> falsy (q_uid q') \<and> \<not> falsy (q_email q') \<longrightarrow>
            FinishProfile_handleSubmit en' c' q' name' w2 =
              (w2\<lparr>trace := trace w2 @ [GetDoc (''usernames'', toLowerCase name')]\<rparr>,
               [SetError ''username'' ''This username is already taken.''])) \<and>
         (((AuthForm_handleSubmit en0 Register v0 w0 = (w3, acts3) \<and> username v0 = name') \<or>
           FinishProfile_handleSubmit en0 c0 q0 name' w0 = (w3, acts3)) \<and>
          RouterPush ''/dashboard'' \<in> set acts3 \<longrightarrow>
            (\<exists>i d. db w3 (''users'', i) = Some d \<and>
                   map_of d ''username'' = Some (Str (toLowerCase name)) \<and>
                   db w3 (''usernames'', toLowerCase name) = Some [(''uid'', Str i)]))"
proof -
  have eq: "toLowerCase name = toLowerCase name'"
    using assms(1) by (rule differ_only_in_case_toLowerCase)
  have acc: "\<exists>i d. db w1 (''users'', i) = Some d \<and>
                map_of d ''username'' = Some (Str (toLowerCase name')) \<and>
                db w1 (''usernames'', toLowerCase name') = Some [(''uid'', Str i)]"
    using completed_registration_account [OF assms(2) assms(3)] eq by simp
  have other: "\<exists>i d. db w3 (''users'', i) = Some d \<and>
                   map_of d ''username'' = Some (Str (toLowerCase name)) \<and>
                   db w3 (''usernames'', toLowerCase name) = Some [(''uid'', Str i)]"
    if "((AuthForm_handleSubmit en0 Register v0 w0 = (w3, acts3) \<and> username v0 = name') \<or>
           FinishProfile_handleSubmit en0 c0 q0 name' w0 = (w3, acts3)) \<and>
          RouterPush ''/dashboard'' \<in> set acts3"
    using completed_registration_account [of en0 v0 w0 w3 acts3 name' c0 q0] that eq by simp
  have "db w1 (''usernames'', toLowerCase name) \<noteq> None"
    using assms(2)
  proof
    assume a: "AuthForm_handleSubmit en Register v w = (w1, acts) \<and> username v = name"
    with assms(3) have "AuthForm_try en Register v w = (w1, Inr acts)"
      using AuthForm_handleSubmit_success [of en v w w1 acts] by simp
    from AuthForm_try_success [OF this assms(3)] a show ?thesis by auto
  next
    assume "FinishProfile_handleSubmit en c q name w = (w1, acts)"
    from FinishProfile_handleSubmit_success [OF this assms(3)]
    obtain i e where "FinishProfile_try en (user c) i e name w = (w1, Inr acts)" by blast
    from FinishProfile_try_success [OF this assms(3)] show ?thesis by auto
  qed
  then have taken: "db w2 (''usernames'', toLowerCase name') \<noteq> None"
    using assms(4) eq by simp
  have rest: "checkUsernameUnique en' name w2 = checkUsernameUnique en' name' w2 \<and>
         FinishProfile_checkUsernameUnique en' name w2 = FinishProfile_checkUsernameUnique en' name' w2 \<and>
         claim en' name a w2 = claim en' name' a w2 \<and>
         (registerSchema en' v' = [] \<and> username v' = name' \<longrightarrow>
            AuthForm_handleSubmit en' Register v' w2 =
              (w2\<lparr>trace := trace w2 @ [GetDoc (''usernames'', toLowerCase name')]\<rparr>,
               [SetError ''username'' ''This username is already taken.''])) \<and>
         (profileSchema name' = [] \<and> \<not> loading c' \<and> user c' \<noteq> None \<and>
          \<not> falsy (q_uid q') \<and> \<not> falsy (q_email q') \<longrightarrow>
            FinishProfile_handleSubmit en' c' q' name' w2 =
              (w2\<lparr>trace := trace w2 @ [GetDoc (''usernames'', toLowerCase name')]\<rparr>,
               [SetError ''username'' ''This username is already taken.'']))"
    using eq taken assms(5)
    by (simp add: AuthForm_handleSubmit_taken FinishProfile_handleSubmit_taken
          checkUsernameUnique_def FinishProfile_checkUsernameUnique_def claim_def)
  from eq acc other rest show ?thesis by blast
qed

theorem case_variants_share_registry_key_witness:
  "toLowerCase ''Alice'' = toLowerCase ''alice'' \<and>
   (\<exists>i d. db (fst (AuthForm_handleSubmit quiet_env Register alice_upper empty_world)) (''users'', i) = Some d \<and>
          map_of d ''username'' = Some (Str ''alice'') \<and>
          db (fst (AuthForm_handleSubmit quiet_env Register alice_upper empty_world)) (''usernames'', ''alice'') =
            Some [(''uid'', Str i)]) \<and>
   snd (AuthForm_handleSubmit quiet_env Register alice_lower
          (fst (AuthForm_handleSubmit quiet_env Register alice_upper empty_world))) =
     [SetError ''username'' ''This username is already taken.''] \<and>
   (\<exists>i d. db (fst (AuthForm_handleSubmit quiet_env Register alice_lower empty_world)) (''users'', i) = Some d \<and>
          map_of d ''username'' = Some (Str ''alice'') \<and>
          db (fst (AuthForm_handleSubmit quiet_env Register alice_lower empty_world)) (''usernames'', ''alice'') =
            Some [(''uid'', Str i)])"
proof -
  let ?w1 = "fst (AuthForm_handleSubmit quiet_env Register alice_upper empty_world)"
  let ?acts = "snd (AuthForm_handleSubmit quiet_env Register alice_upper empty_world)"
  let ?w3 = "fst (AuthForm_handleSubmit quiet_env Register alice_lower empty_world)"
  let ?acts3 = "snd (AuthForm_handleSubmit quiet_env Register alice_lower empty_world)"
  have r: "(AuthForm_handleSubmit quiet_env Register alice_upper empty_world = (?w1, ?acts) \<and>
            username alice_upper = ''Alice'') \<or>
           FinishProfile_handleSubmit quiet_env google_session google_query ''Alice'' empty_world = (?w1, ?acts)"
    by (simp add: alice_simps)
  have d: "RouterPush ''/dashboard'' \<in> set ?acts"
    by (simp add: AuthForm_Alice_run)
  have k: "\<And>r. db ?w1 r \<noteq> None \<Longrightarrow> db ?w1 r \<noteq> None" by simp
  have f: "fault quiet_env (GetDoc (''usernames'', toLowerCase ''alice'')) = None"
    by (simp add: quiet_env_simps)
  have o: "((AuthForm_handleSubmit quiet_env Register alice_lower empty_world = (?w3, ?acts3) \<and>
             username alice_lower = ''alice'') \<or>
            FinishProfile_handleSubmit quiet_env google_session google_query ''alice'' empty_world = (?w3, ?acts3)) \<and>
           RouterPush ''/dashboard'' \<in> set ?acts3"
    by (simp add: alice_simps AuthForm_alice_run)
  have s: "registerSchema quiet_env alice_lower = [] \<and> username alice_lower = ''alice''"
    by (simp add: registerSchema_alice alice_simps)
  note t = case_variants_share_registry_key [OF differ_Alice_alice r d k f,
      of "''acct-2''" alice_lower google_session google_query quiet_env alice_lower empty_world ?w3 ?acts3
         google_session google_query]
  from t o s show ?thesis
    unfolding toLowerCase_Alice toLowerCase_alice by simp
qed

section \<open>A missing Account routes to the completion form\<close>

text \<open>
  C8. Every time the session is established for a principal, the Account at the
  principal's account identifier is read; when the read is answered, the dashboard sends
  the principal to the completion form exactly when that Account is absent, and greets
  otherwise. This holds for any store and any earlier context, so at every session check;
  after a completion for that account identifier has reached the dashboard, the next
  session check greets.
\<close>

theorem missing_account_routes_to_completion:
  assumes "fault en (GetDoc (''users'', uid u)) = None"
  shows "trace (fst (onAuthStateChanged en (Some u) (w, c))) = trace w @ [GetDoc (''users'', uid u)] \<and>
         db (fst (onAuthStateChanged en (Some u) (w, c))) = db w \<and>
         (DashboardPage (snd (onAuthStateChanged en (Some u) (w, c))) = Replace (finish_profile_url u)
            \<longleftrightarrow> db w (''users'', uid u) = None) \<and>
         (db w (''users'', uid u) \<noteq> None \<longrightarrow>
            (\<exists>d. DashboardPage (snd (onAuthStateChanged en (Some u) (w, c))) = Welcome d)) \<and>
         (FinishProfile_handleSubmit en2 c2 q name w = (w2, acts) \<and> RouterPush ''/dashboard'' \<in> set acts \<and>
          q_uid q = Some (uid u) \<longrightarrow>
            (\<exists>d. DashboardPage (snd (onAuthStateChanged en (Some u) (w2, c3))) = Welcome d))"
proof -
  have 1: "trace (fst (onAuthStateChanged en (Some u) (w, c))) = trace w @ [GetDoc (''users'', uid u)] \<and>
         db (fst (onAuthStateChanged en (Some u) (w, c))) = db w \<and>
         (DashboardPage (snd (onAuthStateChanged en (Some u) (w, c))) = Replace (finish_profile_url u)
            \<longleftrightarrow> db w (''users'', uid u) = None) \<and>
         (db w (''users'', uid u) \<noteq> None \<longrightarrow>
            (\<exists>d. DashboardPage (snd (onAuthStateChanged en (Some u) (w, c))) = Welcome d))"
    using assms
    by (cases "db w (''users'', uid u)")
       (simp_all add: onAuthStateChanged_def getDoc_def DashboardPage_def Let_def)
  have 2: "\<exists>d. DashboardPage (snd (onAuthStateChanged en (Some u) (w2, c3))) = Welcome d"
    if a: "FinishProfile_handleSubmit en2 c2 q name w = (w2, acts)" and b: "RouterPush ''/dashboard'' \<in> set acts"
      and q: "q_uid q = Some (uid u)"
  proof -
    from FinishProfile_handleSubmit_success [OF a b] q
    obtain e where "FinishProfile_try en2 (user c2) (uid u) e name w = (w2, Inr acts)" by auto
    from FinishProfile_try_success [OF this b]
    have "db w2 (''users'', uid u) \<noteq> None" by auto
    then obtain d where "db w2 (''users'', uid u) = Some d" by auto
    with assms show ?thesis
      by (simp add: onAuthStateChanged_def getDoc_def DashboardPage_def Let_def)
  qed
  from 1 2 show ?thesis by blast
qed

theorem missing_account_routes_to_completion_witness:
  "DashboardPage (snd (onAuthStateChanged quiet_env (Some acct2) (empty_world, google_session))) =
     Replace ''/finish-profile?uid=acct-2&email=g@example.com'' \<and>
   (\<exists>d. DashboardPage (snd (onAuthStateChanged quiet_env (Some acct2)
        (fst (FinishProfile_handleSubmit quiet_env google_session google_query ''new_user_1'' empty_world),
         google_session))) = Welcome d)"
proof -
  have f: "fault quiet_env (GetDoc (''users'', uid acct2)) = None"
    by (simp add: quiet_env_simps)
  from missing_account_routes_to_completion [OF f, of empty_world google_session quiet_env
      google_session google_query "''new_user_1''"
      "fst (FinishProfile_handleSubmit quiet_env google_session google_query ''new_user_1'' empty_world)"
      "snd (FinishProfile_handleSubmit quiet_env google_session google_query ''new_user_1'' empty_world)"
      google_session]
  show ?thesis
    by (simp add: FinishProfile_new_user_run google_simps acct2_simps empty_world_simps
          finish_profile_url_def template_of_nullable_def)
qed

section \<open>The two workflows seed different profiles\<close>

text \<open>
  C4 at a concrete input. The same candidate username \<open>new_user_1\<close>, email, account
  identifier \<open>acct-1\<close> and no avatar go through the direct registration and through the
  federated completion, on an empty store. The Account and the registry entry written are
  the same; the profile is not: the direct registration writes the skills as three
  strings and no \<open>website\<close>, experience, education, certification, course, testimonial
  or social-media field, the completion writes the skills as three objects and all of
  those fields.
\<close>

theorem seeded_profiles_differ:
  "db (fst (AuthForm_handleSubmit quiet_env Register new_user empty_world)) (''users'', ''acct-1'') =
   db (fst (FinishProfile_handleSubmit quiet_env acct1_session acct1_query ''new_user_1'' empty_world)) (''users'', ''acct-1'') \<and>
   db (fst (AuthForm_handleSubmit quiet_env Register new_user empty_world)) (''usernames'', ''new_user_1'') =
   db (fst (FinishProfile_handleSubmit quiet_env acct1_session acct1_query ''new_user_1'' empty_world)) (''usernames'', ''new_user_1'') \<and>
   db (fst (AuthForm_handleSubmit quiet_env Register new_user empty_world)) (''portfolios'', ''acct-1'') =
     Some [(''fullName'', Str ''Your Name''),
           (''title'', Str ''Your Title''),
           (''bio'', Str ''A short bio about yourself.''),
           (''profilePictureUrl'', Str ''''),
           (''skills'', Arr [Str ''React'', Str ''Next.js'', Str ''Firebase'']),
           (''projects'', Arr []),
           (''theme'', Str ''default'')] \<and>
   db (fst (FinishProfile_handleSubmit quiet_env acct1_session acct1_query ''new_user_1'' empty_world)) (''portfolios'', ''acct-1'') =
     Some [(''fullName'', Str ''Your Name''),
           (''title'', Str ''Your Title''),
           (''bio'', Str ''A short bio about yourself.''),
           (''profilePictureUrl'', Str ''''),
           (''website'', Str ''''),
           (''skills'', Arr [Obj [(''name'', Str ''React'')], Obj [(''name'', Str ''Next.js'')], Obj [(''name'', Str ''Firebase'')]]),
           (''projects'', Arr []),
           (''workExperiences'', Arr []),
           (''organizationExperiences'', Arr []),
           (''educations'', Arr []),
           (''certifications'', Arr []),
           (''courses'', Arr []),
           (''testimonials'', Arr []),
           (''socialMedia'', Arr []),
           (''theme'', Str ''default'')] \<and>
   db (fst (AuthForm_handleSubmit quiet_env Register new_user empty_world)) (''portfolios'', ''acct-1'') \<noteq>
   db (fst (FinishProfile_handleSubmit quiet_env acct1_session acct1_query ''new_user_1'' empty_world)) (''portfolios'', ''acct-1'')"
  by (simp add: AuthForm_new_user_run FinishProfile_acct1_run AuthForm_portfolio_def
        FinishProfile_portfolio_def avatar_or_empty_def acct1_simps)

section \<open>What the seeded profile holds\<close>

text \<open>
  C5 as stated fails: in both workflows the seeded skills collection is not empty, it
  holds the three sample skills React, Next.js and Firebase.
\<close>

theorem seeded_skills_counterexample:
  "db (fst (AuthForm_seedDefault quiet_env ''acct-1'' empty_world)) (''portfolios'', ''acct-1'') =
     Some AuthForm_portfolio \<and>
   map_of AuthForm_portfolio ''skills'' = Some (Arr [Str ''React'', Str ''Next.js'', Str ''Firebase'']) \<and>
   map_of AuthForm_portfolio ''skills'' \<noteq> Some (Arr []) \<and>
   db (fst (FinishProfile_seedDefault quiet_env (Some acct2) ''acct-2'' empty_world)) (''portfolios'', ''acct-2'') =
     Some (FinishProfile_portfolio (Some acct2)) \<and>
   map_of (FinishProfile_portfolio (Some acct2)) ''skills'' =
     Some (Arr [Obj [(''name'', Str ''React'')], Obj [(''name'', Str ''Next.js'')], Obj [(''name'', Str ''Firebase'')]]) \<and>
   map_of (FinishProfile_portfolio (Some acct2)) ''skills'' \<noteq> Some (Arr [])"
  by (simp add: AuthForm_seedDefault_def FinishProfile_seedDefault_def setDoc_def quiet_env_simps
        AuthForm_portfolio_def FinishProfile_portfolio_def empty_world_simps)

text \<open>
  C5, as the code has it. When the store takes the write, the seeding step of either
  workflow leaves at the account identifier a profile with the placeholder full name,
  title and bio, three sample skills named React, Next.js and Firebase, an empty projects
  collection and the theme \<open>default\<close>. The direct registration's avatar is the empty
  string. The completion's avatar is the avatar of the session's principal or the empty
  string, and its profile also holds an empty website and empty collections of work
  experiences, organization experiences, educations, certifications, courses,
  testimonials and social media.
\<close>

theorem seedDefault_contents:
  assumes "fault en (SetDoc (''portfolios'', a) AuthForm_portfolio) = None"
    and "fault en (SetDoc (''portfolios'', a) (FinishProfile_portfolio su)) = None"
  shows "(\<exists>d xs. db (fst (AuthForm_seedDefault en a w)) (''portfolios'', a) = Some d \<and>
            map_of d ''fullName'' = Some (Str ''Your Name'') \<and>
            map_of d ''title'' = Some (Str ''Your Title'') \<and>
            map_of d ''bio'' = Some (Str ''A short bio about yourself.'') \<and>
            map_of d ''profilePictureUrl'' = Some (Str '''') \<and>
            map_of d ''skills'' = Some (Arr xs) \<and>
            map skill_name xs = [Some ''React'', Some ''Next.js'', Some ''Firebase''] \<and>
            map_of d ''projects'' = Some (Arr []) \<and>
            map_of d ''theme'' = Some (Str ''default'')) \<and>
         (\<exists>d xs. db (fst (FinishProfile_seedDefault en su a w)) (''portfolios'', a) = Some d \<and>
            map_of d ''fullName'' = Some (Str ''Your Name'') \<and>
            map_of d ''title'' = Some (Str ''Your Title'') \<and>
            map_of d ''bio'' = Some (Str ''A short bio about yourself.'') \<and>
            map_of d ''profilePictureUrl'' = Some (Str (avatar_or_empty su)) \<and>
            map_of d ''website'' = Some (Str '''') \<and>
            map_of d ''skills'' = Some (Arr xs) \<and>
            map skill_name xs = [Some ''React'', Some ''Next.js'', Some ''Firebase''] \<and>
            map_of d ''projects'' = Some (Arr []) \<and>
            map_of d ''workExperiences'' = Some (Arr []) \<and>
            map_of d ''organizationExperiences'' = Some (Arr []) \<and>
            map_of d ''educations'' = Some (Arr []) \<and>
            map_of d ''certifications'' = Some (Arr []) \<and>
            map_of d ''courses'' = Some (Arr []) \<and>
            map_of d ''testimonials'' = Some (Arr []) \<and>
            map_of d ''socialMedia'' = Some (Arr []) \<and>
            map_of d ''theme'' = Some (Str ''default''))"
proof (rule conjI)
  have "db (fst (AuthForm_seedDefault en a w)) (''portfolios'', a) = Some AuthForm_portfolio"
    using assms(1) by (simp add: AuthForm_seedDefault_def setDoc_def)
  then show "\<exists>d xs. db (fst (AuthForm_seedDefault en a w)) (''portfolios'', a) = Some d \<and>
            map_of d ''fullName'' = Some (Str ''Your Name'') \<and>
            map_of d ''title'' = Some (Str ''Your Title'') \<and>
            map_of d ''bio'' = Some (Str ''A short bio about yourself.'') \<and>
            map_of d ''profilePictureUrl'' = Some (Str '''') \<and>
            map_of d ''skills'' = Some (Arr xs) \<and>
            map skill_name xs = [Some ''React'', Some ''Next.js'', Some ''Firebase''] \<and>
            map_of d ''projects'' = Some (Arr []) \<and>
            map_of d ''theme'' = Some (Str ''default'')"
    by (simp add: AuthForm_portfolio_def skill_name_def)
next
  have "db (fst (FinishProfile_seedDefault en su a w)) (''portfolios'', a) = Some (FinishProfile_portfolio su)"
    using assms(2) by (simp add: FinishProfile_seedDefault_def setDoc_def)
  then show "\<exists>d xs. db (fst (FinishProfile_seedDefault en su a w)) (''portfolios'', a) = Some d \<and>
            map_of d ''fullName'' = Some (Str ''Your Name'') \<and>
            map_of d ''title'' = Some (Str ''Your Title'') \<and>
            map_of d ''bio'' = Some (Str ''A short bio about yourself.'') \<and>
            map_of d ''profilePictureUrl'' = Some (Str (avatar_or_empty su)) \<and>
            map_of d ''website'' = Some (Str '''') \<and>
            map_of d ''skills'' = Some (Arr xs) \<and>
            map skill_name xs = [Some ''React'', Some ''Next.js'', Some ''Firebase''] \<and>
            map_of d ''projects'' = Some (Arr []) \<and>
            map_of d ''workExperiences'' = Some (Arr []) \<and>
            map_of d ''organizationExperiences'' = Some (Arr []) \<and>
            map_of d ''educations'' = Some (Arr []) \<and>
            map_of d ''certifications'' = Some (Arr []) \<and>
            map_of d ''courses'' = Some (Arr []) \<and>
            map_of d ''testimonials'' = Some (Arr []) \<and>
            map_of d ''socialMedia'' = Some (Arr []) \<and>
            map_of d ''theme'' = Some (Str ''default'')"
    by (simp add: FinishProfile_portfolio_def skill_name_def)
qed

theorem seedDefault_contents_witness:
  "(\<exists>d xs. db (fst (AuthForm_seedDefault quiet_env ''acct-1'' empty_world)) (''portfolios'', ''acct-1'') = Some d \<and>
      map_of d ''skills'' = Some (Arr xs) \<and>
      map skill_name xs = [Some ''React'', Some ''Next.js'', Some ''Firebase'']) \<and>
   (\<exists>d. db (fst (FinishProfile_seedDefault quiet_env (Some acct2) ''acct-1'' empty_world)) (''portfolios'', ''acct-1'') = Some d \<and>
      map_of d ''profilePictureUrl'' = Some (Str ''https://example.com/a.png'') \<and>
      map_of d ''socialMedia'' = Some (Arr []))"
proof -
  have a: "fault quiet_env (SetDoc (''portfolios'', ''acct-1'') AuthForm_portfolio) = None"
    by (simp add: quiet_env_simps)
  have b: "fault quiet_env (SetDoc (''portfolios'', ''acct-1'') (FinishProfile_portfolio (Some acct2))) = None"
    by (simp add: quiet_env_simps)
  have c: "avatar_or_empty (Some acct2) = ''https://example.com/a.png''"
    by (simp add: avatar_or_empty_def acct2_simps)
  from seedDefault_contents [OF a b, of empty_world] show ?thesis
    by (auto simp: c)
qed

section \<open>The completion takes the identity from the URL\<close>

text \<open>
  C6 at a concrete input. The session's principal is \<open>acct-2\<close> and the chosen username
  is \<open>new_user_1\<close>, on an empty store. With the completion URL the routing code builds
  (\<open>uid=acct-2&email=g@example.com\<close>) the Account is written at \<open>acct-2\<close>. With the URL
  \<open>uid=acct-9&email=victim@example.com\<close>, in the same session, nothing is written at
  \<open>acct-2\<close>: the Account with the URL's email, the registry entry and the profile are
  written for \<open>acct-9\<close>, the profile carrying the avatar of the session's principal. The
  written records follow the URL, not the session.
\<close>

theorem completion_writes_under_url_identity:
  "user google_session = Some acct2 \<and> uid acct2 = ''acct-2'' \<and> email acct2 = Some ''g@example.com'' \<and>
   db (fst (FinishProfile_handleSubmit quiet_env google_session google_query ''new_user_1'' empty_world))
      (''users'', ''acct-2'') =
     Some [(''username'', Str ''new_user_1''), (''email'', Str ''g@example.com''), (''createdAt'', Timestamp 7)] \<and>
   db (fst (FinishProfile_handleSubmit quiet_env google_session google_query ''new_user_1'' empty_world))
      (''usernames'', ''new_user_1'') = Some [(''uid'', Str ''acct-2'')] \<and>
   db (fst (FinishProfile_handleSubmit quiet_env google_session forged_query ''new_user_1'' empty_world))
      (''users'', ''acct-2'') = None \<and>
   db (fst (FinishProfile_handleSubmit quiet_env google_session forged_query ''new_user_1'' empty_world))
      (''users'', ''acct-9'') =
     Some [(''username'', Str ''new_user_1''), (''email'', Str ''victim@example.com''), (''createdAt'', Timestamp 7)] \<and>
   db (fst (FinishProfile_handleSubmit quiet_env google_session forged_query ''new_user_1'' empty_world))
      (''usernames'', ''new_user_1'') = Some [(''uid'', Str ''acct-9'')] \<and>
   db (fst (FinishProfile_handleSubmit quiet_env google_session forged_query ''new_user_1'' empty_world))
      (''portfolios'', ''acct-9'') = Some (FinishProfile_portfolio (Some acct2)) \<and>
   map_of (FinishProfile_portfolio (Some acct2)) ''profilePictureUrl'' = Some (Str ''https://example.com/a.png'') \<and>
   snd (FinishProfile_handleSubmit quiet_env google_session forged_query ''new_user_1'' empty_world) =
     [Toast Default ''Profile complete!'' ''Welcome to PortfolioHub.'', RouterPush ''/dashboard'']"
  by (simp add: FinishProfile_new_user_run FinishProfile_forged_run google_simps acct2_simps
        FinishProfile_portfolio_def avatar_or_empty_def)

end
